theory Spec2Isabelle
  imports Complex_Main "HOL-Library.AList"
begin

section \<open>Data model of \<open>trans/models/translation.py\<close>\<close>

text \<open>
  The Django model instances are records.  A foreign key that the code follows as an
  object (\<open>self.subproject.project\<close>, \<open>self.language.name\<close>) is a nested record; the
  rows that other tables refer to by key (\<open>Unit.translation\<close>) hold the primary key.
  Timestamps (\<open>datetime\<close>) are integers, in seconds; \<open>datetime.now()\<close> is read by the
  caller and passed as \<open>now\<close>.
\<close>

datatype error =
  GitCommandError | KeyError | IOError | AttributeError | ValueError | TypeError | ZeroDivisionError

record user =
  user_pk :: nat
  username :: string
  full_name :: string
  email :: string

record lang =
  lang_code :: string
  lang_name :: string

record project =
  project_name :: string
  commit_message :: string
  committer_name :: string
  committer_email :: string
  push_on_commit :: bool

record subproject =
  subproject_pk :: nat
  subproject_name :: string
  full_slug :: string
  project :: project
  template :: string
  file_format :: string
  allow_translation_propagation :: bool
  locked :: bool

record translation =
  pk :: nat
  subproject :: subproject
  language :: lang
  revision :: string
  filename :: string
  translated :: int
  fuzzy :: int
  total :: int
  enabled :: bool
  language_code :: string
  lock_user :: "user option"
  lock_time :: int

text \<open>The settings of \<open>weblate.appsettings\<close> that the model reads.\<close>

record appsettings =
  LOCK_TIME :: int
  AUTO_LOCK_TIME :: int
  AUTO_LOCK :: bool
  LAZY_COMMITS :: bool

section \<open>Percentages\<close>

text \<open>
  A number as the accessors return it: the integer \<open>0\<close>, or a float, which is the rational
  number it stands for.  The float operations that the accessors use are those of the
  interpreter and are taken as they are: the product \<open>count * 100.0\<close>, the quotient by a
  divisor that is not zero, and \<open>round(x, ndigits)\<close>.  An integer operand is converted to
  the float of the same value, so that the division \<open>x / total\<close> raises
  \<open>ZeroDivisionError\<close> exactly when \<open>total\<close> is 0.
\<close>

datatype number = PyInt int | PyFloat rat

record float_arithmetic =
  float_mul :: "rat \<Rightarrow> rat \<Rightarrow> rat"
  float_div :: "rat \<Rightarrow> rat \<Rightarrow> rat"
  float_round :: "rat \<Rightarrow> int \<Rightarrow> rat"

definition truediv :: "float_arithmetic \<Rightarrow> rat \<Rightarrow> int \<Rightarrow> error + rat" where
  "truediv F x n = (if n = 0 then Inl ZeroDivisionError else Inr (float_div F x (of_int n)))"

definition get_fuzzy_percent :: "float_arithmetic \<Rightarrow> translation \<Rightarrow> error + number" where
  "get_fuzzy_percent F self =
     (if total self = 0 then Inr (PyInt 0)
      else
        (case truediv F (float_mul F (of_int (fuzzy self)) 100) (total self) of
           Inl e \<Rightarrow> Inl e
         | Inr ratio \<Rightarrow> Inr (PyFloat (float_round F ratio 1))))"

definition get_translated_percent :: "float_arithmetic \<Rightarrow> translation \<Rightarrow> error + number" where
  "get_translated_percent F self =
     (if total self = 0 then Inr (PyInt 0)
      else
        (case truediv F (float_mul F (of_int (translated self)) 100) (total self) of
           Inl e \<Rightarrow> Inl e
         | Inr ratio \<Rightarrow> Inr (PyFloat (float_round F ratio 1))))"

text \<open>
  \<open>get_failing_checks\<close> is \<open>self.unit_set.count_type(check, self)\<close>, a query of the unit
  manager; its count is the argument \<open>failing\<close>.
\<close>

definition get_failing_checks_percent ::
  "float_arithmetic \<Rightarrow> int \<Rightarrow> translation \<Rightarrow> error + number" where
  "get_failing_checks_percent F failing self =
     (if total self = 0 then Inr (PyInt 0)
      else
        (case truediv F (float_mul F (of_int failing) 100) (total self) of
           Inl e \<Rightarrow> Inl e
         | Inr ratio \<Rightarrow> Inr (PyFloat (float_round F ratio 1))))"

section \<open>The soft lock\<close>

text \<open>\<open>self.save()\<close> of the lock methods stores the instance they return.\<close>

definition update_lock_time :: "appsettings \<Rightarrow> int \<Rightarrow> bool \<Rightarrow> bool \<Rightarrow> translation \<Rightarrow> translation" where
  "update_lock_time cfg now explicit is_new self =
     (let seconds = (if explicit then LOCK_TIME cfg else AUTO_LOCK_TIME cfg);
          new_lock_time = now + seconds
      in if is_new \<or> new_lock_time > lock_time self
         then self\<lparr>lock_time := new_lock_time\<rparr>
         else self)"

definition create_lock :: "appsettings \<Rightarrow> int \<Rightarrow> user option \<Rightarrow> bool \<Rightarrow> translation \<Rightarrow> translation" where
  "create_lock cfg now usr explicit self =
     (let is_new = (lock_user self = None);
          self1 = self\<lparr>lock_user := usr\<rparr>
      in if usr = None then self1\<lparr>lock_time := now\<rparr>
         else update_lock_time cfg now explicit is_new self1)"

text \<open>
  \<open>is_user_locked(request, True)\<close>: the pair \<open>(usr_lock, own_lock)\<close>, and the instance,
  whose lock is cleared when it has expired.
\<close>

definition is_user_locked_multi ::
  "appsettings \<Rightarrow> int \<Rightarrow> user option \<Rightarrow> translation \<Rightarrow> (bool \<times> bool) \<times> translation" where
  "is_user_locked_multi cfg now request self =
     (if lock_user self = None then ((False, False), self)
      else if lock_time self < now then ((False, False), create_lock cfg now None False self)
      else if request \<noteq> None \<and> map_option user_pk (lock_user self) = map_option user_pk request
      then ((False, True), self)
      else ((True, False), self))"

definition is_user_locked :: "appsettings \<Rightarrow> int \<Rightarrow> user option \<Rightarrow> translation \<Rightarrow> bool \<times> translation" where
  "is_user_locked cfg now request self =
     (case is_user_locked_multi cfg now request self of (result, self1) \<Rightarrow> (fst result, self1))"

definition is_locked :: "appsettings \<Rightarrow> int \<Rightarrow> user option \<Rightarrow> translation \<Rightarrow> bool \<times> translation" where
  "is_locked cfg now request self =
     (case is_user_locked_multi cfg now request self of
        ((usr_lock, own_lock), self1) \<Rightarrow> (locked (subproject self) \<or> usr_lock, self1))"

text \<open>
  \<open>update_lock\<close> calls \<open>is_user_locked()\<close> without a request and \<open>update_lock_time()\<close>
  without arguments, that is with \<open>explicit=False\<close> and \<open>is_new=True\<close>.
\<close>

definition update_lock :: "appsettings \<Rightarrow> int \<Rightarrow> user \<Rightarrow> translation \<Rightarrow> translation" where
  "update_lock cfg now request_user self =
     (case is_user_locked cfg now None self of
        (True, self1) \<Rightarrow> update_lock_time cfg now False True self1
      | (False, self1) \<Rightarrow>
          if AUTO_LOCK cfg then create_lock cfg now (Some request_user) False self1
          else self1)"

section \<open>Translation files, the repository and the database\<close>

text \<open>
  A unit of a translation file as the format adapter (translate-toolkit) exposes it, and a
  store: the ordered units of one file.  A file is read as the store it parses to.
\<close>

record po_unit =
  getid :: string
  source :: string
  getcontext :: string
  target :: string
  isfuzzy :: bool
  isheader :: bool
  unit_notes :: "string list"

type_synonym store = "po_unit list"

text \<open>
  The nine named values of \<open>commit_message % {...}\<close>, and a commit, whose message is the
  formatted text.  The operator \<open>%\<close> raises \<open>ValueError\<close>, \<open>KeyError\<close> or \<open>TypeError\<close> when
  the template of the project cannot be formatted with these values.
\<close>

record message =
  m_language :: string
  m_language_name :: string
  m_subproject :: string
  m_project :: string
  m_total :: int
  m_fuzzy :: int
  m_fuzzy_percent :: number
  m_translated :: int
  m_translated_percent :: number

datatype format_error = BadFormat | MissingKey | WrongType

fun format_exception :: "format_error \<Rightarrow> error" where
  "format_exception BadFormat = ValueError"
| "format_exception MissingKey = KeyError"
| "format_exception WrongType = TypeError"

record commit =
  commit_path :: string
  commit_author :: string
  commit_date :: int
  commit_m :: string

text \<open>
  The repository of one subproject: the tree of the last commit and the working tree (both
  from file names to file contents), the commits made, the git configuration, and the
  pushes triggered.  \<open>git_errors\<close> is what the version control will answer to the coming
  \<open>git commit\<close> commands: \<open>True\<close> for a command that fails with \<open>GitCommandError\<close>.
\<close>

record repo =
  tree :: "(string \<times> store) list"
  working_tree :: "(string \<times> store) list"
  commits :: "commit list"
  git_errors :: "bool list"
  config :: "((string \<times> string) \<times> string) list"
  pushes :: nat

text \<open>
  Rows of \<open>Unit\<close>, of the dependent tables \<open>Check\<close>, \<open>Suggestion\<close> and \<open>Comment\<close> (keyed by
  project, optional language and checksum) and of \<open>Change\<close>, newest first.  Beside the
  tables and the repositories (by the primary key of the subproject), the state has the
  number of sleeps, the notifications sent (subscriber and translation) and the keys of the
  cache.
\<close>

record db_unit =
  unit_pk :: nat
  unit_translation :: nat
  checksum :: string
  position :: nat
  unit_translated :: bool
  unit_fuzzy :: bool

record dependent =
  dep_project :: project
  dep_language :: "lang option"
  dep_checksum :: string
  dep_user :: "user option"
  dep_text :: string

datatype action =
  ACTION_UPDATE | ACTION_COMPLETE | ACTION_CHANGE | ACTION_COMMENT | ACTION_SUGGESTION | ACTION_NEW

record change =
  change_translation :: nat
  change_action :: action
  change_user :: "user option"
  change_timestamp :: int

record world =
  translation_objects :: "translation list"
  units :: "db_unit list"
  checks :: "dependent list"
  suggestions :: "dependent list"
  comments :: "dependent list"
  changes :: "change list"
  repos :: "nat \<Rightarrow> repo"
  sleeps :: nat
  notified :: "(nat \<times> nat) list"
  cache :: "string list"

text \<open>
  What the model takes from outside \<open>translation.py\<close>: the settings, and the functions of
  \<open>trans.util\<close>, of the unit manager, of the check subsystem, of the change manager, of the
  profile manager and of the format adapter that the methods call.  \<open>update_from_unit\<close> is
  \<open>Unit.objects.update_from_unit\<close>; \<open>check\<close> is \<open>Unit.check\<close>, which rewrites the table of
  checks; \<open>content\<close> selects the changes of \<open>Change.objects.content()\<close>.  \<open>unit_merge\<close> is
  the method \<open>merge(other, overwrite, comments)\<close> of a unit of the format adapter and
  \<open>markfuzzy\<close> its method \<open>markfuzzy()\<close>: each gives the unit as the call leaves it.
  \<open>arithmetic\<close> and \<open>percent_format\<close> are the float operations and the operator \<open>%\<close> of the
  interpreter.
\<close>

record env =
  settings :: appsettings
  hexsha :: "store \<Rightarrow> string"
  is_translatable :: "po_unit \<Rightarrow> bool"
  is_translated :: "po_unit \<Rightarrow> bool"
  istranslated :: "po_unit \<Rightarrow> bool"
  msg_checksum :: "string \<Rightarrow> string \<Rightarrow> string"
  update_from_unit ::
    "translation \<Rightarrow> po_unit option \<Rightarrow> nat \<Rightarrow> po_unit option \<Rightarrow> world \<Rightarrow> (db_unit \<times> bool) \<times> world"
  check :: "db_unit \<Rightarrow> world \<Rightarrow> dependent list"
  content :: "change \<Rightarrow> bool"
  subscribed_new_string :: "project \<Rightarrow> lang \<Rightarrow> nat list"
  is_poheader :: "store \<Rightarrow> bool"
  mergeheaders :: "store \<Rightarrow> store \<Rightarrow> store"
  ttkit :: "string \<Rightarrow> string option \<Rightarrow> store option"
  CHECKS :: "string list"
  unit_merge :: "po_unit \<Rightarrow> po_unit \<Rightarrow> bool \<Rightarrow> bool \<Rightarrow> po_unit"
  markfuzzy :: "po_unit \<Rightarrow> po_unit"
  arithmetic :: float_arithmetic
  percent_format :: "string \<Rightarrow> message \<Rightarrow> format_error + string"

definition git_repo :: "world \<Rightarrow> translation \<Rightarrow> repo" where
  "git_repo w self = repos w (subproject_pk (subproject self))"

definition set_git_repo :: "world \<Rightarrow> translation \<Rightarrow> repo \<Rightarrow> world" where
  "set_git_repo w self r = w\<lparr>repos := (repos w)(subproject_pk (subproject self) := r)\<rparr>"

text \<open>\<open>Model.save()\<close>: the row of the instance's primary key is replaced, or inserted.\<close>

definition save :: "translation \<Rightarrow> world \<Rightarrow> world" where
  "save self w =
     w\<lparr>translation_objects :=
         (if list_ex (\<lambda>t. pk t = pk self) (translation_objects w)
          then map (\<lambda>t. if pk t = pk self then self else t) (translation_objects w)
          else translation_objects w @ [self])\<rparr>"

text \<open>Modelled from the spec: \<open>SubProject.has_template\<close>, whether the project declares a template file.\<close>

definition has_template :: "subproject \<Rightarrow> bool" where
  "has_template sp = (template sp \<noteq> [])"

definition get_git_blob_hash :: "env \<Rightarrow> translation \<Rightarrow> world \<Rightarrow> error + string" where
  "get_git_blob_hash E self w =
     (let t = tree (git_repo w self) in
      case map_of t (filename self) of
        None \<Rightarrow> Inl KeyError
      | Some blob \<Rightarrow>
          if has_template (subproject self) then
            (case map_of t (template (subproject self)) of
               None \<Rightarrow> Inl KeyError
             | Some template_blob \<Rightarrow> Inr (hexsha E blob @ '','' @ hexsha E template_blob))
          else Inr (hexsha E blob))"

definition store_hash :: "env \<Rightarrow> translation \<Rightarrow> world \<Rightarrow> (error + translation) \<times> world" where
  "store_hash E self w =
     (case get_git_blob_hash E self w of
        Inl e \<Rightarrow> (Inl e, w)
      | Inr blob_hash \<Rightarrow>
          (let self1 = self\<lparr>revision := blob_hash\<rparr> in (Inr self1, save self1 w)))"

definition update_stats :: "env \<Rightarrow> translation \<Rightarrow> world \<Rightarrow> (error + translation) \<times> world" where
  "update_stats E self w =
     (let unit_set = filter (\<lambda>u. unit_translation u = pk self) (units w);
          self1 = self\<lparr>total := int (length unit_set),
                       fuzzy := int (length (filter unit_fuzzy unit_set)),
                       translated := int (length (filter unit_translated unit_set))\<rparr>
      in store_hash E self1 (save self1 w))"

section \<open>The commit pipeline\<close>

definition get_author_name :: "user \<Rightarrow> bool \<Rightarrow> string" where
  "get_author_name usr with_email =
     (let name = (if full_name usr = [] then username usr else full_name usr)
      in if \<not> with_email then name else name @ '' <'' @ email usr @ ''>'')"

text \<open>
  \<open>Change.objects.content().filter(translation=self)\<close>, the most recent change first;
  \<open>[0]\<close> of an empty result raises \<open>IndexError\<close>, which both readers turn into \<open>None\<close>.
\<close>

definition content_changes :: "env \<Rightarrow> translation \<Rightarrow> world \<Rightarrow> change list" where
  "content_changes E self w =
     filter (\<lambda>c. content E c \<and> change_translation c = pk self) (changes w)"

definition get_last_author :: "env \<Rightarrow> translation \<Rightarrow> world \<Rightarrow> bool \<Rightarrow> error + string option" where
  "get_last_author E self w with_email =
     (case content_changes E self w of
        [] \<Rightarrow> Inr None
      | c # _ \<Rightarrow>
          (case change_user c of
             None \<Rightarrow> Inl AttributeError
           | Some usr \<Rightarrow> Inr (Some (get_author_name usr with_email))))"

definition get_last_change :: "env \<Rightarrow> translation \<Rightarrow> world \<Rightarrow> int option" where
  "get_last_change E self w =
     (case content_changes E self w of [] \<Rightarrow> None | c # _ \<Rightarrow> Some (change_timestamp c))"

text \<open>
  \<open>get_commit_message\<close>: the values of the dictionary are computed in the order in which
  they are written, then the template is formatted.
\<close>

definition get_commit_message :: "env \<Rightarrow> translation \<Rightarrow> error + string" where
  "get_commit_message E self =
     (case get_fuzzy_percent (arithmetic E) self of
        Inl e \<Rightarrow> Inl e
      | Inr fuzzy_percent \<Rightarrow>
          (case get_translated_percent (arithmetic E) self of
             Inl e \<Rightarrow> Inl e
           | Inr translated_percent \<Rightarrow>
               (case percent_format E (commit_message (project (subproject self)))
                       \<lparr>m_language = language_code self,
                        m_language_name = lang_name (language self),
                        m_subproject = subproject_name (subproject self),
                        m_project = project_name (project (subproject self)),
                        m_total = total self,
                        m_fuzzy = fuzzy self,
                        m_fuzzy_percent = fuzzy_percent,
                        m_translated = translated self,
                        m_translated_percent = translated_percent\<rparr> of
                  Inl e \<Rightarrow> Inl (format_exception e)
                | Inr msg \<Rightarrow> Inr msg)))"

text \<open>\<open>__configure_git\<close> and \<open>__configure_committer\<close>.\<close>

definition private_configure_git :: "repo \<Rightarrow> string \<Rightarrow> string \<Rightarrow> string \<Rightarrow> repo" where
  "private_configure_git gitrepo section key expected =
     (if map_of (config gitrepo) (section, key) = Some expected then gitrepo
      else gitrepo\<lparr>config := AList.update (section, key) expected (config gitrepo)\<rparr>)"

definition private_configure_committer :: "translation \<Rightarrow> repo \<Rightarrow> repo" where
  "private_configure_committer self gitrepo =
     private_configure_git
       (private_configure_git gitrepo ''user'' ''name''
          (committer_name (project (subproject self))))
       ''user'' ''email'' (committer_email (project (subproject self)))"

text \<open>
  Modelled from the spec: \<open>gitrepo.git.commit(path, author, date, m)\<close> of the repository
  gateway, which commits a single path with the supplied author, timestamp and message:
  the committed tree takes the path as it is in the working tree.  The command fails when
  the version control says so (\<open>git_errors\<close>) and when the path has nothing to commit.
\<close>

definition commit_file :: "repo \<Rightarrow> string \<Rightarrow> string \<Rightarrow> int \<Rightarrow> string \<Rightarrow> repo" where
  "commit_file gitrepo path author date m =
     gitrepo\<lparr>tree :=
                (case map_of (working_tree gitrepo) path of
                   None \<Rightarrow> AList.delete path (tree gitrepo)
                 | Some file \<Rightarrow> AList.update path file (tree gitrepo)),
              commits := commits gitrepo @
                [\<lparr>commit_path = path, commit_author = author,
                  commit_date = date, commit_m = m\<rparr>]\<rparr>"

definition git_commit_command ::
  "repo \<Rightarrow> string \<Rightarrow> string \<Rightarrow> int \<Rightarrow> string \<Rightarrow> (error + unit) \<times> repo" where
  "git_commit_command gitrepo path author date m =
     (let failing = (case git_errors gitrepo of [] \<Rightarrow> False | b # _ \<Rightarrow> b);
          gitrepo1 = gitrepo\<lparr>git_errors := tl (git_errors gitrepo)\<rparr>
      in if failing then (Inl GitCommandError, gitrepo1)
         else if map_of (working_tree gitrepo1) path = map_of (tree gitrepo1) path
         then (Inl GitCommandError, gitrepo1)
         else (Inr (), commit_file gitrepo1 path author date m))"

text \<open>
  \<open>__git_commit\<close>: the committer is configured, then the message is formatted, then the
  arguments of the command are computed, where \<open>timestamp.isoformat()\<close> of \<open>None\<close> raises
  \<open>AttributeError\<close>, then the command is run.
\<close>

definition private_git_commit ::
  "env \<Rightarrow> string \<Rightarrow> int option \<Rightarrow> bool \<Rightarrow> translation \<Rightarrow> world \<Rightarrow> (error + translation) \<times> world" where
  "private_git_commit E author timestamp sync self w =
     (let gitrepo = private_configure_committer self (git_repo w self)
      in case get_commit_message E self of
           Inl e \<Rightarrow> (Inl e, set_git_repo w self gitrepo)
         | Inr msg \<Rightarrow>
             (case timestamp of
                None \<Rightarrow> (Inl AttributeError, set_git_repo w self gitrepo)
              | Some date \<Rightarrow>
                  (case git_commit_command gitrepo (filename self) author date msg of
                     (Inl e, gitrepo1) \<Rightarrow> (Inl e, set_git_repo w self gitrepo1)
                   | (Inr _, gitrepo1) \<Rightarrow>
                       if sync then store_hash E self (set_git_repo w self gitrepo1)
                       else (Inr self, set_git_repo w self gitrepo1))))"

text \<open>\<open>git status --porcelain -- filename\<close> is empty when the file is as committed.\<close>

definition git_needs_commit :: "translation \<Rightarrow> world \<Rightarrow> bool" where
  "git_needs_commit self w =
     (map_of (working_tree (git_repo w self)) (filename self) \<noteq>
      map_of (tree (git_repo w self)) (filename self))"

text \<open>Modelled from the spec: \<open>sleep_while_git_locked\<close> of \<open>trans.util\<close>, a short sleep.\<close>

definition sleep_while_git_locked :: "world \<Rightarrow> world" where
  "sleep_while_git_locked w = w\<lparr>sleeps := Suc (sleeps w)\<rparr>"

text \<open>Modelled from the spec: \<open>SubProject.do_push(force_commit=False)\<close>, which triggers a push.\<close>

definition do_push :: "translation \<Rightarrow> world \<Rightarrow> world" where
  "do_push self w =
     set_git_repo w self ((git_repo w self)\<lparr>pushes := Suc (pushes (git_repo w self))\<rparr>)"

text \<open>
  \<open>git_commit\<close>.  The repository lock it takes guards against other processes and is not
  part of the sequential model.
\<close>

definition git_commit ::
  "env \<Rightarrow> string \<Rightarrow> int option \<Rightarrow> bool \<Rightarrow> bool \<Rightarrow> bool \<Rightarrow> translation \<Rightarrow> world
     \<Rightarrow> (error + bool \<times> translation) \<times> world" where
  "git_commit E author timestamp force_commit sync skip_push self w =
     (if \<not> git_needs_commit self w then (Inr (False, self), w)
      else if \<not> force_commit \<and> LAZY_COMMITS (settings E) then (Inr (False, self), w)
      else
        (case
           (case private_git_commit E author timestamp sync self w of
              (Inr self1, w1) \<Rightarrow> (Inr self1, w1)
            | (Inl e, w1) \<Rightarrow>
                if e = GitCommandError
                then private_git_commit E author timestamp sync self (sleep_while_git_locked w1)
                else (Inl e, w1))
         of
           (Inl e, w2) \<Rightarrow> (Inl e, w2)
         | (Inr self1, w2) \<Rightarrow>
             (Inr (True, self1),
              if push_on_commit (project (subproject self)) \<and> \<not> skip_push
              then do_push self1 w2 else w2)))"

definition commit_pending ::
  "env \<Rightarrow> string option \<Rightarrow> bool \<Rightarrow> translation \<Rightarrow> world \<Rightarrow> (error + translation) \<times> world" where
  "commit_pending E author skip_push self w =
     (case get_last_author E self w True of
        Inl e \<Rightarrow> (Inl e, w)
      | Inr None \<Rightarrow> (Inr self, w)
      | Inr (Some last_author) \<Rightarrow>
          if author = Some last_author then (Inr self, w)
          else
            (case git_commit E last_author (get_last_change E self w) True True skip_push self w of
               (Inl e, w1) \<Rightarrow> (Inl e, w1)
             | (Inr (ret, self1), w1) \<Rightarrow> (Inr self1, w1)))"

text \<open>Modelled from the spec: \<open>Store.save\<close>, which writes the store to its file.\<close>

definition store_save :: "translation \<Rightarrow> store \<Rightarrow> world \<Rightarrow> world" where
  "store_save self st w =
     set_git_repo w self
       ((git_repo w self)\<lparr>working_tree :=
          AList.update (filename self) st (working_tree (git_repo w self))\<rparr>)"

text \<open>
  Repeated edits of the file, each as \<open>update_unit\<close> ends: \<open>store.save()\<close> and
  \<open>self.git_commit(author, timezone.now(), sync=True)\<close>, which is not forced.  The result
  tells whether one of the calls committed.
\<close>

fun edit_file ::
  "env \<Rightarrow> string \<Rightarrow> int \<Rightarrow> store list \<Rightarrow> translation \<Rightarrow> world \<Rightarrow> (error + bool \<times> translation) \<times> world" where
  "edit_file E author now [] self w = (Inr (False, self), w)"
| "edit_file E author now (st # sts) self w =
     (case git_commit E author (Some now) False True False self (store_save self st w) of
        (Inl e, w1) \<Rightarrow> (Inl e, w1)
      | (Inr (ret, self1), w1) \<Rightarrow>
          (case edit_file E author now sts self1 w1 of
             (Inl e, w2) \<Rightarrow> (Inl e, w2)
           | (Inr (ret1, self2), w2) \<Rightarrow> (Inr (ret \<or> ret1, self2), w2)))"

section \<open>Synchronisation of the units with the file\<close>

text \<open>
  \<open>get_store\<close> parses the file of the working tree; the store it caches on the instance is
  the store of that file, since every change of a store is saved before the next reading.
\<close>

definition get_store :: "translation \<Rightarrow> world \<Rightarrow> error + store" where
  "get_store self w =
     (case map_of (working_tree (git_repo w self)) (filename self) of
        None \<Rightarrow> Inl IOError
      | Some file \<Rightarrow> Inr file)"

text \<open>
  Modelled from the spec: \<open>SubProject.get_template_store\<close>, the store of the template file
  of the project, \<open>None\<close> when the project declares no template.
\<close>

definition get_template_store :: "translation \<Rightarrow> world \<Rightarrow> error + store option" where
  "get_template_store self w =
     (if has_template (subproject self) then
        (case map_of (working_tree (git_repo w self)) (template (subproject self)) of
           None \<Rightarrow> Inl IOError
         | Some file \<Rightarrow> Inr (Some file))
      else Inr None)"

text \<open>
  Modelled from the spec: \<open>Store.findById\<close> and \<open>Store.findBySource\<close> of the format adapter.
  The result is the place of the first matching unit in the store, through which the caller
  reads and changes that unit.
\<close>

fun index_of :: "('a \<Rightarrow> bool) \<Rightarrow> 'a list \<Rightarrow> nat option" where
  "index_of P [] = None"
| "index_of P (x # xs) = (if P x then Some 0 else map_option Suc (index_of P xs))"

definition findid :: "store \<Rightarrow> string \<Rightarrow> nat option" where
  "findid st i = index_of (\<lambda>u. getid u = i) st"

definition findunit :: "store \<Rightarrow> string \<Rightarrow> nat option" where
  "findunit st s = index_of (\<lambda>u. source u = s) st"

text \<open>
  One round of the two loops of \<open>update_from_blob\<close> over the units of the file (or of the
  template): the state is \<open>(was_new, pos, oldunits, database)\<close>.
\<close>

definition process_unit ::
  "env \<Rightarrow> translation \<Rightarrow> po_unit option \<Rightarrow> po_unit option \<Rightarrow> bool \<times> nat \<times> nat list \<times> world
     \<Rightarrow> bool \<times> nat \<times> nat list \<times> world" where
  "process_unit E self unit template_unit st =
     (case st of (was_new, pos, oldunits, w) \<Rightarrow>
        (case update_from_unit E self unit pos template_unit w of
           ((newunit, is_new), w1) \<Rightarrow>
             (was_new \<or> (is_new \<and> \<not> unit_translated newunit),
              pos + 1,
              removeAll (unit_pk newunit) oldunits,
              w1)))"

definition scan_units :: "env \<Rightarrow> translation \<Rightarrow> world \<Rightarrow> (error + bool \<times> nat list) \<times> world" where
  "scan_units E self w =
     (let oldunits = map unit_pk (filter (\<lambda>u. unit_translation u = pk self) (units w)) in
      case get_store self w of
        Inl e \<Rightarrow> (Inl e, w)
      | Inr st \<Rightarrow>
          (case get_template_store self w of
             Inl e \<Rightarrow> (Inl e, w)
           | Inr None \<Rightarrow>
               (case foldl (\<lambda>acc unit.
                              if \<not> is_translatable E unit then acc
                              else process_unit E self (Some unit) None acc)
                       (False, 1, oldunits, w) st of
                  (was_new, pos, oldunits1, w1) \<Rightarrow> (Inr (was_new, oldunits1), w1))
           | Inr (Some template_store) \<Rightarrow>
               (case foldl (\<lambda>acc template_unit.
                              if \<not> is_translatable E template_unit then acc
                              else process_unit E self
                                     (map_option (nth st) (findid st (getid template_unit)))
                                     (Some template_unit) acc)
                       (False, 1, oldunits, w) template_store of
                  (was_new, pos, oldunits1, w1) \<Rightarrow> (Inr (was_new, oldunits1), w1))))"

text \<open>
  \<open>Unit.objects.filter(translation=self, id__in=oldunits)\<close>: the checksums of these units,
  and the database without them.
\<close>

definition delete_units :: "translation \<Rightarrow> nat list \<Rightarrow> world \<Rightarrow> string list \<times> world" where
  "delete_units self oldunits w =
     (let to_delete = (\<lambda>u. unit_translation u = pk self \<and> unit_pk u \<in> set oldunits)
      in (map checksum (filter to_delete (units w)),
          w\<lparr>units := filter (\<lambda>u. \<not> to_delete u) (units w)\<rparr>))"

text \<open>
  The two unit queries of the cleanup, which join a unit with its translation:
  \<open>filter(translation__language=self.language, translation__subproject__project=...,
  checksum=checksum)\<close> and the same query without the language.
\<close>

definition units_of_language :: "world \<Rightarrow> lang \<Rightarrow> project \<Rightarrow> string \<Rightarrow> db_unit list" where
  "units_of_language w l p c =
     filter (\<lambda>u. checksum u = c \<and>
                 (case find (\<lambda>t. pk t = unit_translation u) (translation_objects w) of
                    None \<Rightarrow> False
                  | Some t \<Rightarrow> language t = l \<and> project (subproject t) = p))
       (units w)"

definition units_of_project :: "world \<Rightarrow> project \<Rightarrow> string \<Rightarrow> db_unit list" where
  "units_of_project w p c =
     filter (\<lambda>u. checksum u = c \<and>
                 (case find (\<lambda>t. pk t = unit_translation u) (translation_objects w) of
                    None \<Rightarrow> False
                  | Some t \<Rightarrow> project (subproject t) = p))
       (units w)"

text \<open>\<open>objects.filter(project=p, language=l, checksum=c).delete()\<close> on a dependent table.\<close>

definition keyed :: "project \<Rightarrow> lang option \<Rightarrow> string \<Rightarrow> dependent \<Rightarrow> bool" where
  "keyed p l c r = (dep_project r = p \<and> dep_language r = l \<and> dep_checksum r = c)"

definition delete_keyed :: "project \<Rightarrow> lang option \<Rightarrow> string \<Rightarrow> dependent list \<Rightarrow> dependent list" where
  "delete_keyed p l c rows = filter (\<lambda>r. \<not> keyed p l c r) rows"

text \<open>The body of the loop \<open>for checksum in deleted_checksums\<close>.\<close>

definition cleanup_checksum :: "env \<Rightarrow> translation \<Rightarrow> world \<Rightarrow> string \<Rightarrow> world" where
  "cleanup_checksum E self w c =
     (let p = project (subproject self);
          l = language self;
          found = units_of_language w l p c
      in if found = [] then
           (let w1 = w\<lparr>checks := delete_keyed p (Some l) c (checks w)\<rparr>;
                w2 = w1\<lparr>suggestions := delete_keyed p (Some l) c (suggestions w1)\<rparr>;
                w3 = w2\<lparr>comments := delete_keyed p (Some l) c (comments w2)\<rparr>;
                other_units = units_of_project w3 p c
            in if other_units = [] then
                 (let w4 = w3\<lparr>comments := delete_keyed p None c (comments w3)\<rparr>
                  in w4\<lparr>checks := delete_keyed p None c (checks w4)\<rparr>)
               else w3)
         else foldl (\<lambda>w1 u. w1\<lparr>checks := check E u w1\<rparr>) w found)"

definition cleanup_checks :: "env \<Rightarrow> translation \<Rightarrow> string list \<Rightarrow> world \<Rightarrow> world" where
  "cleanup_checks E self deleted_checksums w = foldl (cleanup_checksum E self) w deleted_checksums"

definition update_from_blob ::
  "env \<Rightarrow> int \<Rightarrow> bool \<Rightarrow> user option \<Rightarrow> translation \<Rightarrow> world \<Rightarrow> (error + translation) \<times> world" where
  "update_from_blob E now force request self w =
     (case get_git_blob_hash E self w of
        Inl e \<Rightarrow> (Inl e, w)
      | Inr blob_hash \<Rightarrow>
          if revision self = blob_hash \<and> \<not> force then (Inr self, w)
          else
            (case scan_units E self w of
               (Inl e, w1) \<Rightarrow> (Inl e, w1)
             | (Inr (was_new, oldunits), w1) \<Rightarrow>
                 (case delete_units self oldunits w1 of
                    (deleted_checksums, w2) \<Rightarrow>
                      (case update_stats E self (cleanup_checks E self deleted_checksums w2) of
                         (Inl e, w4) \<Rightarrow> (Inl e, w4)
                       | (Inr self1, w4) \<Rightarrow>
                           (let w5 = w4\<lparr>changes :=
                                  \<lparr>change_translation = pk self1, change_action = ACTION_UPDATE,
                                   change_user = request, change_timestamp = now\<rparr> # changes w4\<rparr>
                            in (Inr self1,
                                if was_new
                                then w5\<lparr>notified := notified w5 @
                                        map (\<lambda>subscription. (subscription, pk self1))
                                          (subscribed_new_string E (project (subproject self1))
                                             (language self1))\<rparr>
                                else w5))))))"

definition check_sync :: "env \<Rightarrow> int \<Rightarrow> translation \<Rightarrow> world \<Rightarrow> (error + translation) \<times> world" where
  "check_sync E now self w = update_from_blob E now False None self w"

section \<open>Merging\<close>

text \<open>
  The body of the loop \<open>for unit2 in store2.units\<close> of \<open>merge_store\<close>.  The unit found is
  changed in place by \<open>unit1.merge(unit2, overwrite=True, comments=False)\<close> and, when
  \<open>add_fuzzy\<close> is set, by \<open>unit1.markfuzzy()\<close>.
\<close>

definition merge_unit ::
  "env \<Rightarrow> store \<Rightarrow> bool \<Rightarrow> bool \<Rightarrow> bool \<Rightarrow> store \<Rightarrow> po_unit \<Rightarrow> store" where
  "merge_unit E store2 overwrite merge_header add_fuzzy store1 unit2 =
     (if \<not> is_translated E unit2 then store1
      else if isheader unit2 then
        (if merge_header \<and> is_poheader E store1 then mergeheaders E store1 store2 else store1)
      else
        (case (case findid store1 (getid unit2) of
                 None \<Rightarrow> findunit store1 (source unit2)
               | Some i \<Rightarrow> Some i) of
           None \<Rightarrow> store1
         | Some i \<Rightarrow>
             if \<not> overwrite \<and> istranslated E (store1 ! i) then store1
             else
               (let unit1 = unit_merge E (store1 ! i) unit2 True False
                in store1[i := (if add_fuzzy then markfuzzy E unit1 else unit1)])))"

text \<open>The loop, over the units of the uploaded store that are still to be processed.\<close>

definition merge_units ::
  "env \<Rightarrow> store \<Rightarrow> bool \<Rightarrow> bool \<Rightarrow> bool \<Rightarrow> store \<Rightarrow> po_unit list \<Rightarrow> store" where
  "merge_units E store2 overwrite merge_header add_fuzzy store1 todo =
     foldl (merge_unit E store2 overwrite merge_header add_fuzzy) store1 todo"

definition merge_store ::
  "env \<Rightarrow> int \<Rightarrow> string \<Rightarrow> store \<Rightarrow> bool \<Rightarrow> bool \<Rightarrow> bool \<Rightarrow> translation \<Rightarrow> world
     \<Rightarrow> (error + bool \<times> translation) \<times> world" where
  "merge_store E now author store2 overwrite merge_header add_fuzzy self w =
     (case get_store self w of
        Inl e \<Rightarrow> (Inl e, w)
      | Inr st \<Rightarrow>
          (let store1 = merge_units E store2 overwrite merge_header add_fuzzy st store2 in
           case commit_pending E (Some author) False self w of
             (Inl e, w1) \<Rightarrow> (Inl e, w1)
           | (Inr self1, w1) \<Rightarrow>
               (case git_commit E author (Some now) True False False self1
                       (store_save self1 store1 w1) of
                  (Inl e, w2) \<Rightarrow> (Inl e, w2)
                | (Inr (ret, self2), w2) \<Rightarrow>
                    (case check_sync E now self2 w2 of
                       (Inl e, w3) \<Rightarrow> (Inl e, w3)
                     | (Inr self3, w3) \<Rightarrow> (Inr (ret, self3), w3)))))"

definition invalidate_cache :: "env \<Rightarrow> string option \<Rightarrow> translation \<Rightarrow> world \<Rightarrow> world" where
  "invalidate_cache E cache_type self w =
     (let slug = full_slug (subproject self);
          code = lang_code (language self);
          keys = (case cache_type of None \<Rightarrow> ''allchecks'' # CHECKS E | Some t \<Rightarrow> [t])
      in foldl (\<lambda>w1 rqtype.
                  w1\<lparr>cache := removeAll (''counts-'' @ slug @ ''-'' @ code @ ''-'' @ rqtype) (cache w1)\<rparr>)
           w keys)"

text \<open>
  \<open>merge_suggestions\<close>; \<open>get_source\<close>, \<open>get_context\<close> and \<open>get_target\<close> of \<open>trans.util\<close> read
  the source, the context and the target of the unit.
\<close>

definition merge_suggestions :: "env \<Rightarrow> user \<Rightarrow> store \<Rightarrow> translation \<Rightarrow> world \<Rightarrow> bool \<times> world" where
  "merge_suggestions E request_user st self w =
     (case foldl (\<lambda>acc unit.
                    if isheader unit \<or> \<not> is_translated E unit then acc
                    else
                      (case acc of (ret, w1) \<Rightarrow>
                         (True,
                          w1\<lparr>suggestions := suggestions w1 @
                               [\<lparr>dep_project = project (subproject self),
                                 dep_language = Some (language self),
                                 dep_checksum = msg_checksum E (source unit) (getcontext unit),
                                 dep_user = Some request_user,
                                 dep_text = target unit\<rparr>]\<rparr>)))
             (False, w) st of
        (ret, w1) \<Rightarrow> (ret, if ret then invalidate_cache E (Some ''suggestions'') self w1 else w1))"

text \<open>
  The loop \<open>for translation in translations: ret |= translation.merge_store(...)\<close> of
  \<open>merge_upload\<close>, which an exception of one \<open>merge_store\<close> leaves.
\<close>

fun merge_translations ::
  "env \<Rightarrow> int \<Rightarrow> string \<Rightarrow> store \<Rightarrow> bool \<Rightarrow> bool \<Rightarrow> bool \<Rightarrow> translation list \<Rightarrow> bool \<Rightarrow> world
     \<Rightarrow> (error + bool) \<times> world" where
  "merge_translations E now author st overwrite merge_header add_fuzzy [] ret w = (Inr ret, w)"
| "merge_translations E now author st overwrite merge_header add_fuzzy (t # ts) ret w =
     (case merge_store E now author st overwrite merge_header add_fuzzy t w of
        (Inl e, w1) \<Rightarrow> (Inl e, w1)
      | (Inr (r, t1), w1) \<Rightarrow>
          merge_translations E now author st overwrite merge_header add_fuzzy ts (ret \<or> r) w1)"

text \<open>The translations that \<open>merge_upload\<close> lists: the two filters on \<open>Translation.objects\<close>.\<close>

definition upload_translations :: "translation \<Rightarrow> world \<Rightarrow> translation list" where
  "upload_translations self w =
     filter (\<lambda>t. pk t = pk self \<or> allow_translation_propagation (subproject t))
       (filter (\<lambda>t. language t = language self \<and>
                    project (subproject t) = project (subproject self))
          (translation_objects w))"

text \<open>
  \<open>merge_upload\<close>: the uploaded file is parsed by \<open>ttkit\<close>, first without and then with the
  format of the subproject; the exception of the second attempt is \<open>ValueError\<close> here.
\<close>

definition merge_upload ::
  "env \<Rightarrow> int \<Rightarrow> user \<Rightarrow> string \<Rightarrow> bool \<Rightarrow> string option \<Rightarrow> bool \<Rightarrow> string \<Rightarrow> translation \<Rightarrow> world
     \<Rightarrow> (error + bool) \<times> world" where
  "merge_upload E now request_user fileobj overwrite author merge_header method self w =
     (case (case ttkit E fileobj None of
              None \<Rightarrow> ttkit E fileobj (Some (file_format (subproject self)))
            | Some st \<Rightarrow> Some st) of
        None \<Rightarrow> (Inl ValueError, w)
      | Some st \<Rightarrow>
          (let author1 = (case author of None \<Rightarrow> get_author_name request_user True | Some a \<Rightarrow> a);
               candidates = upload_translations self w
           in if method = [] \<or> method = ''fuzzy'' then
                merge_translations E now author1 st overwrite merge_header (method = ''fuzzy'')
                  candidates False w
              else
                (case merge_suggestions E request_user st self w of
                   (ret, w1) \<Rightarrow> (Inr ret, w1))))"

section \<open>The dispatch of an upload in the words of the specification\<close>

text \<open>
  \<open>mergeStore\<close> run against every candidate sibling in turn, each on the database that the
  one before left: the boolean results of all of them, or the exception of the first that
  raises one.
\<close>

fun merge_store_each ::
  "env \<Rightarrow> int \<Rightarrow> string \<Rightarrow> store \<Rightarrow> bool \<Rightarrow> bool \<Rightarrow> bool \<Rightarrow> translation list \<Rightarrow> world
     \<Rightarrow> (error + bool list) \<times> world" where
  "merge_store_each E now author st overwrite merge_header add_fuzzy [] w = (Inr [], w)"
| "merge_store_each E now author st overwrite merge_header add_fuzzy (t # ts) w =
     (case merge_store E now author st overwrite merge_header add_fuzzy t w of
        (Inl e, w1) \<Rightarrow> (Inl e, w1)
      | (Inr (r, t1), w1) \<Rightarrow>
          (case merge_store_each E now author st overwrite merge_header add_fuzzy ts w1 of
             (Inl e, w2) \<Rightarrow> (Inl e, w2)
           | (Inr rs, w2) \<Rightarrow> (Inr (r # rs), w2)))"

text \<open>
  The candidate siblings: same language, same project, restricted to the translation itself
  or translations whose component opts into propagation.
\<close>

definition candidate_sibling :: "translation \<Rightarrow> translation \<Rightarrow> bool" where
  "candidate_sibling self t =
     (language t = language self \<and> project (subproject t) = project (subproject self) \<and>
      (pk t = pk self \<or> allow_translation_propagation (subproject t)))"

text \<open>
  If the mode is empty or the fuzzy-marking mode: \<open>mergeStore\<close> against every candidate
  sibling, with \<open>addFuzzy\<close> exactly for the fuzzy-marking mode, OR-combining the results.
  Otherwise: \<open>mergeSuggestions\<close> against only the originating translation.
\<close>

definition mergeUpload_spec ::
  "env \<Rightarrow> int \<Rightarrow> user \<Rightarrow> store \<Rightarrow> bool \<Rightarrow> string \<Rightarrow> bool \<Rightarrow> string \<Rightarrow> translation \<Rightarrow> world
     \<Rightarrow> (error + bool) \<times> world" where
  "mergeUpload_spec E now actor st overwrite author mergeHeader mode self w =
     (if mode = [] \<or> mode = ''fuzzy'' then
        (case merge_store_each E now author st overwrite mergeHeader (mode = ''fuzzy'')
                (filter (candidate_sibling self) (translation_objects w)) w of
           (Inl e, w1) \<Rightarrow> (Inl e, w1)
         | (Inr results, w1) \<Rightarrow> (Inr (True \<in> set results), w1))
      else
        (case merge_suggestions E actor st self w of (added, w1) \<Rightarrow> (Inr added, w1)))"

section \<open>A small installation\<close>

text \<open>
  One project with a Czech and a German translation of one subproject, used where a
  statement is evaluated on concrete data.  The functions taken from outside
  \<open>translation.py\<close> are given simple bodies here.
\<close>

definition example_project :: project where
  "example_project =
     \<lparr>project_name = ''hello'', commit_message = ''Translated using Weblate'',
      committer_name = ''Weblate'', committer_email = ''noreply@weblate.org'',
      push_on_commit = False\<rparr>"

definition example_subproject :: subproject where
  "example_subproject =
     \<lparr>subproject_pk = 1, subproject_name = ''main'', full_slug = ''hello__main'',
      project = example_project, template = [], file_format = ''po'',
      allow_translation_propagation = True, locked = False\<rparr>"

definition czech :: lang where
  "czech = \<lparr>lang_code = ''cs'', lang_name = ''Czech''\<rparr>"

definition german :: lang where
  "german = \<lparr>lang_code = ''de'', lang_name = ''German''\<rparr>"

definition example_translation :: translation where
  "example_translation =
     \<lparr>pk = 1, subproject = example_subproject, language = czech, revision = [],
      filename = ''po/cs.po'', translated = 0, fuzzy = 0, total = 0, enabled = True,
      language_code = ''cs'', lock_user = None, lock_time = 0\<rparr>"

definition german_translation :: translation where
  "german_translation =
     \<lparr>pk = 2, subproject = example_subproject, language = german, revision = [],
      filename = ''po/de.po'', translated = 0, fuzzy = 0, total = 0, enabled = True,
      language_code = ''de'', lock_user = None, lock_time = 0\<rparr>"

definition alice :: user where
  "alice = \<lparr>user_pk = 1, username = ''alice'', full_name = ''Alice Doe'',
            email = ''alice@example.org''\<rparr>"

definition bob :: user where
  "bob = \<lparr>user_pk = 2, username = ''bob'', full_name = [], email = ''bob@example.org''\<rparr>"

definition example_settings :: appsettings where
  "example_settings =
     \<lparr>LOCK_TIME = 900, AUTO_LOCK_TIME = 60, AUTO_LOCK = True, LAZY_COMMITS = True\<rparr>"

definition hello :: po_unit where
  "hello = \<lparr>getid = ''hello'', source = ''Hello'', getcontext = [], target = [],
             isfuzzy = False, isheader = False, unit_notes = []\<rparr>"

text \<open>
  The Czech translation in a project whose template of the commit message, \<open>Done 100%\<close>,
  cannot be formatted.
\<close>

definition done_translation :: translation where
  "done_translation =
     example_translation
       \<lparr>subproject := example_subproject
          \<lparr>project := example_project\<lparr>commit_message := ''Done 100%''\<rparr>\<rparr>\<rparr>"

text \<open>
  The committed Czech file has the unit untranslated, the file in the working tree has it
  translated: the Czech file has uncommitted changes, the German file has none.
\<close>

definition example_repo :: repo where
  "example_repo =
     \<lparr>tree = [(''po/cs.po'', [hello]), (''po/de.po'', [hello])],
      working_tree = [(''po/cs.po'', [hello\<lparr>target := ''Ahoj''\<rparr>]), (''po/de.po'', [hello])],
      commits = [], git_errors = [], config = [], pushes = 0\<rparr>"

definition example_world :: world where
  "example_world =
     \<lparr>translation_objects = [example_translation, german_translation],
      units = [\<lparr>unit_pk = 1, unit_translation = 1, checksum = ''X'', position = 1,
                 unit_translated = False, unit_fuzzy = False\<rparr>,
               \<lparr>unit_pk = 2, unit_translation = 2, checksum = ''X'', position = 1,
                 unit_translated = False, unit_fuzzy = False\<rparr>],
      checks = [], suggestions = [], comments = [],
      changes = [\<lparr>change_translation = 1, change_action = ACTION_CHANGE,
                   change_user = Some bob, change_timestamp = 5\<rparr>],
      repos = (\<lambda>sp. example_repo),
      sleeps = 0, notified = [], cache = []\<rparr>"

text \<open>The same installation with answers of the version control to the coming commits.\<close>

definition failing_world :: "bool list \<Rightarrow> world" where
  "failing_world answers =
     set_git_repo example_world example_translation (example_repo\<lparr>git_errors := answers\<rparr>)"

text \<open>
  A unit manager that finds the unit of the translation by the checksum (here the source
  and the context of the unit of the file), updating or creating it.
\<close>

definition example_update_from_unit ::
  "translation \<Rightarrow> po_unit option \<Rightarrow> nat \<Rightarrow> po_unit option \<Rightarrow> world \<Rightarrow> (db_unit \<times> bool) \<times> world" where
  "example_update_from_unit self unit pos template_unit w =
     (let key = (case template_unit of Some t \<Rightarrow> t | None \<Rightarrow> (case unit of Some u \<Rightarrow> u | None \<Rightarrow> hello));
          csum = source key @ ''|'' @ getcontext key;
          complete = (case unit of Some u \<Rightarrow> target u \<noteq> [] \<and> \<not> isfuzzy u | None \<Rightarrow> False);
          marked = (case unit of Some u \<Rightarrow> isfuzzy u | None \<Rightarrow> False)
      in case find (\<lambda>d. unit_translation d = pk self \<and> checksum d = csum) (units w) of
           Some d \<Rightarrow>
             (let d1 = d\<lparr>position := pos, unit_translated := complete, unit_fuzzy := marked\<rparr>
              in ((d1, False),
                  w\<lparr>units := map (\<lambda>x. if unit_pk x = unit_pk d then d1 else x) (units w)\<rparr>))
         | None \<Rightarrow>
             (let d1 = \<lparr>unit_pk = Suc (foldr max (map unit_pk (units w)) 0),
                        unit_translation = pk self, checksum = csum, position = pos,
                        unit_translated = complete, unit_fuzzy = marked\<rparr>
              in ((d1, True), w\<lparr>units := units w @ [d1]\<rparr>)))"

text \<open>
  A merge of units for the examples: the comments of the other unit are added when asked
  for; the target is taken when the unit is not translated or \<open>overwrite\<close> is set, and the
  unit then takes the fuzzy state of the other unit when both have the same source and
  context, and is fuzzy otherwise.
\<close>

definition example_unit_merge :: "po_unit \<Rightarrow> po_unit \<Rightarrow> bool \<Rightarrow> bool \<Rightarrow> po_unit" where
  "example_unit_merge unit1 unit2 overwrite with_comments =
     (let u = (if with_comments then unit1\<lparr>unit_notes := unit_notes unit1 @ unit_notes unit2\<rparr>
               else unit1)
      in if target unit1 = [] \<or> isfuzzy unit1 \<or> overwrite
         then u\<lparr>target := target unit2,
                isfuzzy := (if source unit1 = source unit2 \<and> getcontext unit1 = getcontext unit2
                            then isfuzzy unit2 else True)\<rparr>
         else u)"

text \<open>
  Arithmetic that computes exactly on the rationals, in place of the floats, and a formatter
  for the two templates of the examples: \<open>Translated using Weblate\<close>, which has no
  conversion and is its own result, and \<open>Done 100%\<close>, which ends inside a conversion and
  cannot be formatted.  Both stand for the interpreter only on the inputs of the examples.
\<close>

definition exact_arithmetic :: float_arithmetic where
  "exact_arithmetic =
     \<lparr>float_mul = (\<lambda>x y. x * y),
      float_div = (\<lambda>x y. x / y),
      float_round = (\<lambda>x ndigits. of_int (round (x * 10 ^ nat ndigits)) / 10 ^ nat ndigits)\<rparr>"

definition example_env :: env where
  "example_env =
     \<lparr>settings = example_settings,
      hexsha = (\<lambda>st. concat (map (\<lambda>u. getid u @ ''='' @ target u @ '';'') st)),
      is_translatable = (\<lambda>u. \<not> isheader u),
      is_translated = (\<lambda>u. target u \<noteq> [] \<and> \<not> isfuzzy u),
      istranslated = (\<lambda>u. target u \<noteq> [] \<and> \<not> isfuzzy u),
      msg_checksum = (\<lambda>src ctx. src @ ''|'' @ ctx),
      update_from_unit = example_update_from_unit,
      check = (\<lambda>u w. filter (\<lambda>r. \<not> (dep_checksum r = checksum u \<and> dep_text r = ''stale'')) (checks w)),
      content = (\<lambda>c. change_action c = ACTION_CHANGE \<or> change_action c = ACTION_NEW),
      subscribed_new_string = (\<lambda>p l. []),
      is_poheader = (\<lambda>st. True),
      mergeheaders = (\<lambda>store1 store2. store1),
      ttkit = (\<lambda>fileobj format.
                 case format of None \<Rightarrow> None | Some f \<Rightarrow> Some [hello\<lparr>target := fileobj\<rparr>]),
      CHECKS = [],
      unit_merge = example_unit_merge,
      markfuzzy = (\<lambda>u. u\<lparr>isfuzzy := True\<rparr>),
      arithmetic = exact_arithmetic,
      percent_format = (\<lambda>template values.
                          if CHR ''%'' \<in> set template then Inl BadFormat else Inr template)\<rparr>"

text \<open>
  Records that depend on the checksum \<open>X\<close>, which the Czech unit 1 and the German unit 2
  have: checks, suggestions and comments of both languages and of the source.  The Czech
  file of the working tree no longer has this unit.
\<close>

definition row :: "lang option \<Rightarrow> string \<Rightarrow> dependent" where
  "row l txt = \<lparr>dep_project = example_project, dep_language = l, dep_checksum = ''X'',
                dep_user = None, dep_text = txt\<rparr>"

definition cleanup_world :: world where
  "cleanup_world =
     example_world
       \<lparr>checks := [row (Some czech) ''plurals'', row None ''optional plural''],
        suggestions := [row (Some czech) ''Nazdar'', row (Some german) ''Hallo''],
        comments := [row (Some czech) ''really?'', row None ''a greeting'']\<rparr>"

text \<open>
  The same database during and after the synchronisation of the Czech translation: with
  the unit 3 made for the unit of the file, then without the unit 1.
\<close>

definition scanned_world :: world where
  "scanned_world =
     cleanup_world
       \<lparr>units := units cleanup_world @
          [\<lparr>unit_pk = 3, unit_translation = 1, checksum = ''Hello|'', position = 1,
            unit_translated = True, unit_fuzzy = False\<rparr>]\<rparr>"

definition deleted_world :: world where
  "deleted_world =
     cleanup_world
       \<lparr>units :=
          [\<lparr>unit_pk = 2, unit_translation = 2, checksum = ''X'', position = 1,
            unit_translated = False, unit_fuzzy = False\<rparr>,
           \<lparr>unit_pk = 3, unit_translation = 1, checksum = ''Hello|'', position = 1,
            unit_translated = True, unit_fuzzy = False\<rparr>]\<rparr>"

definition synced_translation :: translation where
  "synced_translation = example_translation\<lparr>revision := ''hello=;'', translated := 1, total := 1\<rparr>"

definition synced_world :: world where
  "synced_world =
     deleted_world
       \<lparr>translation_objects := [synced_translation, german_translation],
        checks := [row None ''optional plural''],
        suggestions := [row (Some german) ''Hallo''],
        comments := [row None ''a greeting''],
        changes := \<lparr>change_translation = 1, change_action = ACTION_UPDATE,
                     change_user = None, change_timestamp = 9\<rparr> # changes cleanup_world\<rparr>"

section \<open>Percentages never divide by zero\<close>

lemma truediv_nonzero: "n \<noteq> 0 \<Longrightarrow> truediv F x n = Inr (float_div F x (of_int n))"
  by (simp add: truediv_def)

lemma truediv_zero: "truediv F x 0 = Inl ZeroDivisionError"
  by (simp add: truediv_def)

text \<open>The accessors return a number whatever the counts are.\<close>

lemma percent_returns:
  "\<exists>v. get_fuzzy_percent F self = Inr v"
  "\<exists>v. get_translated_percent F self = Inr v"
  "\<exists>v. get_failing_checks_percent F failing self = Inr v"
  by (simp_all add: get_fuzzy_percent_def get_translated_percent_def get_failing_checks_percent_def
        truediv_nonzero)

text \<open>
  C10.  For a translation whose total is 0 the three percentage accessors return 0, where
  the division by the total would raise \<open>ZeroDivisionError\<close>; for any other total, so for a
  positive one, each returns \<open>round(count * 100.0 / total, 1)\<close>, its count times 100
  divided by the total and rounded to one decimal place by the interpreter.  None of them
  ever raises an exception.
\<close>

theorem percent_accessors:
  "(total self = 0 \<longrightarrow>
      get_fuzzy_percent F self = Inr (PyInt 0) \<and>
      get_translated_percent F self = Inr (PyInt 0) \<and>
      get_failing_checks_percent F failing self = Inr (PyInt 0) \<and>
      truediv F (float_mul F (of_int (fuzzy self)) 100) (total self) = Inl ZeroDivisionError \<and>
      truediv F (float_mul F (of_int (translated self)) 100) (total self) = Inl ZeroDivisionError \<and>
      truediv F (float_mul F (of_int failing) 100) (total self) = Inl ZeroDivisionError) \<and>
   (total self \<noteq> 0 \<longrightarrow>
      get_fuzzy_percent F self =
        Inr (PyFloat (float_round F
               (float_div F (float_mul F (of_int (fuzzy self)) 100) (of_int (total self))) 1)) \<and>
      get_translated_percent F self =
        Inr (PyFloat (float_round F
               (float_div F (float_mul F (of_int (translated self)) 100) (of_int (total self))) 1)) \<and>
      get_failing_checks_percent F failing self =
        Inr (PyFloat (float_round F
               (float_div F (float_mul F (of_int failing) 100) (of_int (total self))) 1))) \<and>
   get_fuzzy_percent F self \<noteq> Inl e \<and>
   get_translated_percent F self \<noteq> Inl e \<and>
   get_failing_checks_percent F failing self \<noteq> Inl e"
  by (simp add: get_fuzzy_percent_def get_translated_percent_def get_failing_checks_percent_def
        truediv_def)

theorem percent_accessors_witness:
  "get_fuzzy_percent exact_arithmetic example_translation = Inr (PyInt 0) \<and>
   get_translated_percent exact_arithmetic example_translation = Inr (PyInt 0) \<and>
   get_failing_checks_percent exact_arithmetic 5 example_translation = Inr (PyInt 0) \<and>
   truediv exact_arithmetic (float_mul exact_arithmetic (of_int 5) 100) (total example_translation) =
     Inl ZeroDivisionError \<and>
   get_fuzzy_percent exact_arithmetic (example_translation\<lparr>fuzzy := 1, total := 4\<rparr>) =
     Inr (PyFloat 25) \<and>
   get_translated_percent exact_arithmetic (example_translation\<lparr>translated := 3, total := 4\<rparr>) =
     Inr (PyFloat 75)"
proof -
  let ?f = "example_translation\<lparr>fuzzy := 1, total := 4\<rparr>"
  let ?t = "example_translation\<lparr>translated := 3, total := 4\<rparr>"
  have zero: "total example_translation = 0"
    by (simp add: example_translation_def)
  have nonzero: "total ?f \<noteq> 0" "total ?t \<noteq> 0"
    by simp_all
  have rounded: "float_round exact_arithmetic
        (float_div exact_arithmetic (float_mul exact_arithmetic (of_int (fuzzy ?f)) 100)
           (of_int (total ?f))) 1 = 25"
    "float_round exact_arithmetic
        (float_div exact_arithmetic (float_mul exact_arithmetic (of_int (translated ?t)) 100)
           (of_int (total ?t))) 1 = 75"
    by (simp_all add: exact_arithmetic_def)
  note a = percent_accessors [where self = example_translation and F = exact_arithmetic
      and failing = 5, THEN conjunct1, THEN mp, OF zero]
  note b = percent_accessors [where self = ?f and F = exact_arithmetic,
      THEN conjunct2, THEN conjunct1, THEN mp, OF nonzero(1), THEN conjunct1]
  note c = percent_accessors [where self = ?t and F = exact_arithmetic,
      THEN conjunct2, THEN conjunct1, THEN mp, OF nonzero(2), THEN conjunct2, THEN conjunct1]
  from a b [unfolded rounded] c [unfolded rounded] show ?thesis
    by simp
qed

text \<open>The formatting of the commit message fails with an exception of \<open>%\<close> only.\<close>

lemma get_commit_message_error:
  "get_commit_message E self = Inl e \<Longrightarrow> e = ValueError \<or> e = KeyError \<or> e = TypeError"
proof -
  assume a: "get_commit_message E self = Inl e"
  obtain fp tp where p: "get_fuzzy_percent (arithmetic E) self = Inr fp"
      "get_translated_percent (arithmetic E) self = Inr tp"
    using percent_returns(1) percent_returns(2) by blast
  from a obtain fe where "e = format_exception fe"
    unfolding get_commit_message_def p by (auto split: sum.splits)
  then show ?thesis
    by (cases fe) simp_all
qed

lemma get_commit_message_not_git: "get_commit_message E self \<noteq> Inl GitCommandError"
  using get_commit_message_error [of E self GitCommandError] by auto

section \<open>Touching a lock\<close>

text \<open>
  Locking a translation that is already locked never shortens the lock: \<open>create_lock\<close> passes
  \<open>is_new=False\<close>, and \<open>update_lock_time\<close> then keeps the later expiry.  A touch of a live
  lock sets the expiry to \<open>now + AUTO_LOCK_TIME\<close> whatever it was, which extends a lock that
  does not reach beyond that time.
\<close>

lemma create_lock_never_shortens:
  "lock_user self \<noteq> None \<Longrightarrow> usr \<noteq> None \<Longrightarrow>
   lock_time self \<le> lock_time (create_lock cfg now usr explicit self)"
  by (auto simp add: create_lock_def update_lock_time_def Let_def)

lemma update_lock_live:
  "lock_user self \<noteq> None \<Longrightarrow> now \<le> lock_time self \<Longrightarrow>
   update_lock cfg now request_user self = self\<lparr>lock_time := now + AUTO_LOCK_TIME cfg\<rparr>"
  by (auto simp add: update_lock_def is_user_locked_def is_user_locked_multi_def update_lock_time_def
        Let_def)

lemma update_lock_extends_auto_lock:
  "lock_user self \<noteq> None \<Longrightarrow> now \<le> lock_time self \<Longrightarrow>
   lock_time self \<le> now + AUTO_LOCK_TIME cfg \<Longrightarrow>
   lock_time self \<le> lock_time (update_lock cfg now request_user self)"
  by (simp add: update_lock_live)


text \<open>
  C1.  The expiry of a lock that its holder touches before it expires should never move
  backwards.  Here alice locks the translation explicitly at time 0 (expiry 900) and
  touches it at time 10, while the lock is live: \<open>update_lock\<close> calls \<open>update_lock_time\<close>
  with its default \<open>is_new=True\<close>, the comparison with the old expiry is skipped, and the
  expiry drops to 70.
\<close>

theorem update_lock_shortens_explicit_lock:
  "lock_user (create_lock example_settings 0 (Some alice) True example_translation) = Some alice \<and>
   lock_time (create_lock example_settings 0 (Some alice) True example_translation) = 900 \<and>
   fst (is_user_locked example_settings 10 None
          (create_lock example_settings 0 (Some alice) True example_translation)) \<and>
   lock_user (update_lock example_settings 10 alice
     (create_lock example_settings 0 (Some alice) True example_translation)) = Some alice \<and>
   lock_time (update_lock example_settings 10 alice
     (create_lock example_settings 0 (Some alice) True example_translation)) = 70"
  by (simp add: update_lock_def is_user_locked_def is_user_locked_multi_def create_lock_def
        update_lock_time_def example_settings_def example_translation_def Let_def)

section \<open>The commit pipeline: repository, configuration and retry\<close>

lemma git_repo_set [simp]: "git_repo (set_git_repo w self r) self = r"
  by (simp add: git_repo_def set_git_repo_def)

lemma set_git_repo_twice [simp]: "set_git_repo (set_git_repo w self r) self r' = set_git_repo w self r'"
  by (simp add: set_git_repo_def)

lemma set_git_repo_same [simp]: "set_git_repo w self (git_repo w self) = w"
  by (simp add: set_git_repo_def git_repo_def)

lemma configure_git_fields [simp]:
  "tree (private_configure_git r s k v) = tree r"
  "working_tree (private_configure_git r s k v) = working_tree r"
  "commits (private_configure_git r s k v) = commits r"
  "git_errors (private_configure_git r s k v) = git_errors r"
  "pushes (private_configure_git r s k v) = pushes r"
  by (simp_all add: private_configure_git_def)

lemma configure_git_errors:
  "private_configure_git (r\<lparr>git_errors := es\<rparr>) s k v = (private_configure_git r s k v)\<lparr>git_errors := es\<rparr>"
  by (simp add: private_configure_git_def)

lemma configure_git_noop:
  "map_of (config r) (s, k) = Some v \<Longrightarrow> private_configure_git r s k v = r"
  by (simp add: private_configure_git_def)

lemma configure_git_config:
  "map_of (config (private_configure_git r s k v)) = (map_of (config r))((s, k) \<mapsto> v)"
  by (auto simp add: private_configure_git_def update_conv')

lemma configure_committer_fields [simp]:
  "tree (private_configure_committer self r) = tree r"
  "working_tree (private_configure_committer self r) = working_tree r"
  "commits (private_configure_committer self r) = commits r"
  "git_errors (private_configure_committer self r) = git_errors r"
  "pushes (private_configure_committer self r) = pushes r"
  by (simp_all add: private_configure_committer_def)

lemma configure_committer_errors:
  "private_configure_committer self (r\<lparr>git_errors := es\<rparr>) = (private_configure_committer self r)\<lparr>git_errors := es\<rparr>"
  by (simp add: private_configure_committer_def configure_git_errors)

lemma configure_committer_idem [simp]:
  "private_configure_committer self (private_configure_committer self r) = private_configure_committer self r"
proof -
  let ?n = "committer_name (project (subproject self))"
  let ?e = "committer_email (project (subproject self))"
  let ?r1 = "private_configure_git r ''user'' ''name'' ?n"
  let ?r2 = "private_configure_git ?r1 ''user'' ''email'' ?e"
  have "map_of (config ?r2) (''user'', ''name'') = Some ?n"
    by (simp add: configure_git_config)
  then have a: "private_configure_git ?r2 ''user'' ''name'' ?n = ?r2"
    by (rule configure_git_noop)
  have "map_of (config ?r2) (''user'', ''email'') = Some ?e"
    by (simp add: configure_git_config)
  then have b: "private_configure_git ?r2 ''user'' ''email'' ?e = ?r2"
    by (rule configure_git_noop)
  show ?thesis unfolding private_configure_committer_def by (simp only: a b)
qed

lemma git_needs_commit_set_repo [simp]:
  "git_needs_commit self (set_git_repo w self r) =
     (map_of (working_tree r) (filename self) \<noteq> map_of (tree r) (filename self))"
  by (simp add: git_needs_commit_def)

lemma git_commit_command_fails:
  "git_errors r = True # rest \<Longrightarrow>
   git_commit_command r p a d m = (Inl GitCommandError, r\<lparr>git_errors := rest\<rparr>)"
  by (simp add: git_commit_command_def)

lemma git_commit_command_succeeds:
  "(case git_errors r of [] \<Rightarrow> True | b # _ \<Rightarrow> \<not> b) \<Longrightarrow>
   map_of (working_tree r) p \<noteq> map_of (tree r) p \<Longrightarrow>
   git_commit_command r p a d m = (Inr (), commit_file (r\<lparr>git_errors := tl (git_errors r)\<rparr>) p a d m)"
  by (auto simp add: git_commit_command_def Let_def split: list.splits)

lemma commit_file_fields [simp]:
  "working_tree (commit_file r p a d m) = working_tree r"
  "git_errors (commit_file r p a d m) = git_errors r"
  "pushes (commit_file r p a d m) = pushes r"
  "config (commit_file r p a d m) = config r"
  "commits (commit_file r p a d m) =
     commits r @ [\<lparr>commit_path = p, commit_author = a, commit_date = d, commit_m = m\<rparr>]"
  "map_of (tree (commit_file r p a d m)) p = map_of (working_tree r) p"
  by (simp_all add: commit_file_def update_conv' delete_conv' split: option.splits)

lemma private_git_commit_unformatted:
  "get_commit_message E self = Inl e \<Longrightarrow>
   private_git_commit E a ts sync self w =
     (Inl e, set_git_repo w self (private_configure_committer self (git_repo w self)))"
  by (simp add: private_git_commit_def)

lemma private_git_commit_no_timestamp:
  "get_commit_message E self = Inr m \<Longrightarrow>
   private_git_commit E a None sync self w =
     (Inl AttributeError, set_git_repo w self (private_configure_committer self (git_repo w self)))"
  by (simp add: private_git_commit_def)

lemma private_git_commit_fails:
  "get_commit_message E self = Inr m \<Longrightarrow>
   git_errors (git_repo w self) = True # rest \<Longrightarrow>
   private_git_commit E a (Some d) sync self w =
     (Inl GitCommandError,
      set_git_repo w self ((private_configure_committer self (git_repo w self))\<lparr>git_errors := rest\<rparr>))"
  by (simp add: private_git_commit_def git_commit_command_fails)

text \<open>The database after a successful commit of the file of \<open>self\<close>.\<close>

lemma private_git_commit_succeeds:
  "get_commit_message E self = Inr m \<Longrightarrow>
   (case git_errors (git_repo w self) of [] \<Rightarrow> True | b # _ \<Rightarrow> \<not> b) \<Longrightarrow>
   git_needs_commit self w \<Longrightarrow>
   private_git_commit E a (Some d) sync self w =
     (let w1 = set_git_repo w self
                 (commit_file
                    ((private_configure_committer self (git_repo w self))
                       \<lparr>git_errors := tl (git_errors (git_repo w self))\<rparr>)
                    (filename self) a d m)
      in if sync then store_hash E self w1 else (Inr self, w1))"
  by (simp add: private_git_commit_def git_commit_command_succeeds git_needs_commit_def Let_def)

lemma git_repo_save [simp]: "git_repo (save s w) x = git_repo w x"
  by (simp add: git_repo_def save_def)

lemma git_repo_sleep [simp]: "git_repo (sleep_while_git_locked w) x = git_repo w x"
  by (simp add: git_repo_def sleep_while_git_locked_def)

lemma sleeps_simps [simp]:
  "sleeps (set_git_repo w x r) = sleeps w"
  "sleeps (save s w) = sleeps w"
  "sleeps (sleep_while_git_locked w) = Suc (sleeps w)"
  by (simp_all add: set_git_repo_def save_def sleep_while_git_locked_def)

lemma sleep_set_git_repo:
  "set_git_repo (sleep_while_git_locked w) x r = sleep_while_git_locked (set_git_repo w x r)"
  by (simp add: set_git_repo_def sleep_while_git_locked_def)

lemma sleep_save: "save s (sleep_while_git_locked w) = sleep_while_git_locked (save s w)"
  by (simp add: save_def sleep_while_git_locked_def)

lemma blob_hash_repo:
  "subproject self' = subproject self \<Longrightarrow> filename self' = filename self \<Longrightarrow>
   tree (git_repo w' self) = tree (git_repo w self) \<Longrightarrow>
   get_git_blob_hash E self' w' = get_git_blob_hash E self w"
  by (simp add: get_git_blob_hash_def git_repo_def Let_def split: option.splits)

lemma blob_hash_simps [simp]:
  "get_git_blob_hash E self (sleep_while_git_locked w) = get_git_blob_hash E self w"
  "get_git_blob_hash E self (save s w) = get_git_blob_hash E self w"
  "get_git_blob_hash E (self\<lparr>revision := h\<rparr>) w = get_git_blob_hash E self w"
  by (rule blob_hash_repo; simp)+

lemma blob_hash_error: "get_git_blob_hash E self w = Inl e \<Longrightarrow> e = KeyError"
  by (auto simp add: get_git_blob_hash_def Let_def split: option.splits if_splits)

lemma store_hash_sleep:
  "store_hash E self (sleep_while_git_locked w) =
     (case store_hash E self w of (r, w') \<Rightarrow> (r, sleep_while_git_locked w'))"
  by (simp add: store_hash_def sleep_save Let_def split: sum.splits)

lemma private_git_commit_sleep:
  "private_git_commit E a ts sync self (sleep_while_git_locked w) =
     (case private_git_commit E a ts sync self w of (r, w') \<Rightarrow> (r, sleep_while_git_locked w'))"
  by (simp add: private_git_commit_def sleep_set_git_repo store_hash_sleep Let_def
        split: option.splits prod.splits sum.splits)

lemma private_git_commit_configured:
  "private_git_commit E a ts sync self (set_git_repo w self (private_configure_committer self r)) =
   private_git_commit E a ts sync self (set_git_repo w self r)"
  by (simp add: private_git_commit_def Let_def split: option.splits prod.splits sum.splits)

lemma store_hash_cases:
  "(store_hash E self w = (Inl KeyError, w) \<and> get_git_blob_hash E self w = Inl KeyError) \<or>
   (\<exists>h. get_git_blob_hash E self w = Inr h \<and>
        store_hash E self w = (Inr (self\<lparr>revision := h\<rparr>), save (self\<lparr>revision := h\<rparr>) w))"
  by (cases "get_git_blob_hash E self w") (auto simp add: store_hash_def Let_def dest: blob_hash_error)

lemma git_repo_revision [simp]: "git_repo w (self\<lparr>revision := h\<rparr>) = git_repo w self"
  by (simp add: git_repo_def)

lemma set_git_repo_revision [simp]: "set_git_repo w (self\<lparr>revision := h\<rparr>) r = set_git_repo w self r"
  by (simp add: set_git_repo_def)

lemma do_push_revision [simp]: "do_push (self\<lparr>revision := h\<rparr>) w = do_push self w"
  by (simp add: do_push_def)

lemma do_push_fields [simp]:
  "tree (git_repo (do_push self w) self) = tree (git_repo w self)"
  "working_tree (git_repo (do_push self w) self) = working_tree (git_repo w self)"
  "commits (git_repo (do_push self w) self) = commits (git_repo w self)"
  "git_errors (git_repo (do_push self w) self) = git_errors (git_repo w self)"
  "pushes (git_repo (do_push self w) self) = Suc (pushes (git_repo w self))"
  "sleeps (do_push self w) = sleeps w"
  by (simp_all add: do_push_def)

lemma do_push_sleep: "do_push self (sleep_while_git_locked w) = sleep_while_git_locked (do_push self w)"
  by (simp add: do_push_def sleep_set_git_repo)

text \<open>\<open>git_commit\<close> when the first attempt is not answered with \<open>GitCommandError\<close>.\<close>

lemma git_commit_first_attempt:
  assumes dirty: "git_needs_commit self w"
    and gate: "force_commit \<or> \<not> LAZY_COMMITS (settings E)"
    and msg: "get_commit_message E self = Inr m"
    and ok: "case git_errors (git_repo w self) of [] \<Rightarrow> True | b # _ \<Rightarrow> \<not> b"
  shows "git_commit E a (Some d) force_commit sync skip_push self w =
     (case private_git_commit E a (Some d) sync self w of
        (Inl e, w2) \<Rightarrow> (Inl e, w2)
      | (Inr self1, w2) \<Rightarrow>
          (Inr (True, self1),
           if push_on_commit (project (subproject self)) \<and> \<not> skip_push
           then do_push self1 w2 else w2))"
proof -
  let ?w1 = "set_git_repo w self
                 (commit_file
                    ((private_configure_committer self (git_repo w self))
                       \<lparr>git_errors := tl (git_errors (git_repo w self))\<rparr>)
                    (filename self) a d m)"
  have p: "private_git_commit E a (Some d) sync self w =
      (if sync then store_hash E self ?w1 else (Inr self, ?w1))"
    using private_git_commit_succeeds [OF msg ok dirty] by (simp add: Let_def)
  show ?thesis
  proof (cases sync)
    case False
    with p dirty gate show ?thesis by (simp add: git_commit_def)
  next
    case True
    from store_hash_cases [of E self ?w1] show ?thesis
    proof
      assume "store_hash E self ?w1 = (Inl KeyError, ?w1) \<and> get_git_blob_hash E self ?w1 = Inl KeyError"
      with p True dirty gate show ?thesis by (simp add: git_commit_def)
    next
      assume "\<exists>h. get_git_blob_hash E self ?w1 = Inr h \<and>
        store_hash E self ?w1 = (Inr (self\<lparr>revision := h\<rparr>), save (self\<lparr>revision := h\<rparr>) ?w1)"
      then obtain h where "store_hash E self ?w1 = (Inr (self\<lparr>revision := h\<rparr>), save (self\<lparr>revision := h\<rparr>) ?w1)"
        by blast
      with p True dirty gate show ?thesis by (simp add: git_commit_def)
    qed
  qed
qed

lemma blob_hash_do_push [simp]:
  "get_git_blob_hash E self (do_push self w) = get_git_blob_hash E self w"
  by (rule blob_hash_repo; simp)

lemma git_commit_first_attempt_effect:
  assumes dirty: "git_needs_commit self w"
    and gate: "force_commit \<or> \<not> LAZY_COMMITS (settings E)"
    and msg: "get_commit_message E self = Inr m"
    and ok: "case git_errors (git_repo w self) of [] \<Rightarrow> True | b # _ \<Rightarrow> \<not> b"
  shows "commits (git_repo (snd (git_commit E a (Some d) force_commit sync skip_push self w)) self) =
           commits (git_repo w self) @
             [\<lparr>commit_path = filename self, commit_author = a, commit_date = d,
               commit_m = m\<rparr>]" (is ?A)
    and "map_of (tree (git_repo (snd (git_commit E a (Some d) force_commit sync skip_push self w)) self))
             (filename self) =
           map_of (working_tree (git_repo w self)) (filename self)" (is ?B)
    and "working_tree (git_repo (snd (git_commit E a (Some d) force_commit sync skip_push self w)) self) =
           working_tree (git_repo w self)" (is ?C)
    and "git_errors (git_repo (snd (git_commit E a (Some d) force_commit sync skip_push self w)) self) =
           tl (git_errors (git_repo w self))" (is ?D)
    and "sleeps (snd (git_commit E a (Some d) force_commit sync skip_push self w)) = sleeps w" (is ?S)
    and "case git_commit E a (Some d) force_commit sync skip_push self w of
           (Inl e, w') \<Rightarrow> sync \<and> e = KeyError \<and> get_git_blob_hash E self w' = Inl KeyError
         | (Inr (ret, self'), w') \<Rightarrow>
             ret \<and> (if sync then self' = self\<lparr>revision := revision self'\<rparr> \<and>
                                 Inr (revision self') = get_git_blob_hash E self' w'
                      else self' = self)" (is ?R)
proof -
  let ?w1 = "set_git_repo w self
                 (commit_file
                    ((private_configure_committer self (git_repo w self))
                       \<lparr>git_errors := tl (git_errors (git_repo w self))\<rparr>)
                    (filename self) a d m)"
  have p: "private_git_commit E a (Some d) sync self w =
      (if sync then store_hash E self ?w1 else (Inr self, ?w1))"
    using private_git_commit_succeeds [OF msg ok dirty] by (simp add: Let_def)
  note g = git_commit_first_attempt [OF dirty gate msg ok, of a d sync skip_push]
  have "?A \<and> ?B \<and> ?C \<and> ?D \<and> ?S \<and> ?R"
  proof (cases sync)
    case False
    with p g show ?thesis by simp
  next
    case True
    from store_hash_cases [of E self ?w1] show ?thesis
    proof
      assume "store_hash E self ?w1 = (Inl KeyError, ?w1) \<and> get_git_blob_hash E self ?w1 = Inl KeyError"
      with p True g show ?thesis by simp
    next
      assume "\<exists>h. get_git_blob_hash E self ?w1 = Inr h \<and>
        store_hash E self ?w1 = (Inr (self\<lparr>revision := h\<rparr>), save (self\<lparr>revision := h\<rparr>) ?w1)"
      then obtain h where "get_git_blob_hash E self ?w1 = Inr h"
        "store_hash E self ?w1 = (Inr (self\<lparr>revision := h\<rparr>), save (self\<lparr>revision := h\<rparr>) ?w1)"
        by blast
      with p True g show ?thesis by simp
    qed
  qed
  then show ?A and ?B and ?C and ?D and ?S and ?R by simp_all
qed

text \<open>\<open>git_commit\<close> when the first attempt is answered with \<open>GitCommandError\<close>.\<close>

lemma git_commit_after_failure:
  assumes dirty: "git_needs_commit self w"
    and gate: "force_commit \<or> \<not> LAZY_COMMITS (settings E)"
    and msg: "get_commit_message E self = Inr m"
    and first: "git_errors (git_repo w self) = True # rest"
  shows "git_commit E a (Some d) force_commit sync skip_push self w =
     (case private_git_commit E a (Some d) sync self
             (set_git_repo w self ((git_repo w self)\<lparr>git_errors := rest\<rparr>)) of
        (Inl e, w2) \<Rightarrow> (Inl e, sleep_while_git_locked w2)
      | (Inr self1, w2) \<Rightarrow>
          (Inr (True, self1),
           sleep_while_git_locked
             (if push_on_commit (project (subproject self)) \<and> \<not> skip_push
              then do_push self1 w2 else w2)))"
proof -
  let ?w_ok = "set_git_repo w self ((git_repo w self)\<lparr>git_errors := rest\<rparr>)"
  have retry: "private_git_commit E a (Some d) sync self
      (sleep_while_git_locked
         (set_git_repo w self
            ((private_configure_committer self (git_repo w self))\<lparr>git_errors := rest\<rparr>))) =
      (case private_git_commit E a (Some d) sync self ?w_ok of
         (r, w') \<Rightarrow> (r, sleep_while_git_locked w'))"
    by (simp only: private_git_commit_sleep configure_committer_errors [symmetric]
          private_git_commit_configured)
  show ?thesis
    unfolding git_commit_def
    using dirty gate
    by (simp add: private_git_commit_fails [OF msg first] retry do_push_sleep
          split: prod.splits sum.splits)
qed

lemma git_commit_retry_succeeds:
  assumes dirty: "git_needs_commit self w"
    and gate: "force_commit \<or> \<not> LAZY_COMMITS (settings E)"
    and msg: "get_commit_message E self = Inr m"
    and first: "git_errors (git_repo w self) = True # rest"
    and ok: "case rest of [] \<Rightarrow> True | b # _ \<Rightarrow> \<not> b"
  shows "git_commit E a (Some d) force_commit sync skip_push self w =
          (case git_commit E a (Some d) force_commit sync skip_push self
                  (set_git_repo w self ((git_repo w self)\<lparr>git_errors := rest\<rparr>)) of
             (r, w') \<Rightarrow> (r, sleep_while_git_locked w'))" (is "?res = ?as_if")
    and "case git_commit E a (Some d) force_commit sync skip_push self w of
           (Inl e, w') \<Rightarrow> sync \<and> e = KeyError \<and> get_git_blob_hash E self w' = Inl KeyError
         | (Inr (ret, self'), w') \<Rightarrow>
             ret \<and> (if sync then self' = self\<lparr>revision := revision self'\<rparr> \<and>
                                 Inr (revision self') = get_git_blob_hash E self' w'
                      else self' = self)" (is ?R)
    and "commits (git_repo (snd (git_commit E a (Some d) force_commit sync skip_push self w)) self) =
          commits (git_repo w self) @
            [\<lparr>commit_path = filename self, commit_author = a, commit_date = d,
              commit_m = m\<rparr>]" (is ?C)
    and "map_of (tree (git_repo (snd (git_commit E a (Some d) force_commit sync skip_push self w)) self))
             (filename self) =
           map_of (working_tree (git_repo w self)) (filename self)" (is ?T)
    and "git_errors (git_repo (snd (git_commit E a (Some d) force_commit sync skip_push self w)) self) =
          tl rest" (is ?G)
    and "sleeps (snd (git_commit E a (Some d) force_commit sync skip_push self w)) = Suc (sleeps w)" (is ?S)
proof -
  let ?w_ok = "set_git_repo w self ((git_repo w self)\<lparr>git_errors := rest\<rparr>)"
  let ?res_ok = "git_commit E a (Some d) force_commit sync skip_push self ?w_ok"
  note after = git_commit_after_failure [OF dirty gate msg first, where a = a and d = d and sync = sync and skip_push = skip_push]
  have dirty_ok: "git_needs_commit self ?w_ok"
    using dirty by (simp add: git_needs_commit_def)
  have ok': "case git_errors (git_repo ?w_ok self) of [] \<Rightarrow> True | b # _ \<Rightarrow> \<not> b"
    using ok by simp
  note one = git_commit_first_attempt [OF dirty_ok gate msg ok', where a = a and d = d and sync = sync and skip_push = skip_push]
  show eq: "?res = ?as_if"
    unfolding after one by (simp split: prod.splits sum.splits)
  note eff = git_commit_first_attempt_effect [OF dirty_ok gate msg ok', where a = a and d = d and sync = sync and skip_push = skip_push]
  have snd_eq: "snd ?res = sleep_while_git_locked (snd ?res_ok)"
    unfolding eq by (simp split: prod.splits)
  show ?R
    using eff(6) unfolding eq by (auto split: prod.splits sum.splits)
  show ?C ?T ?G ?S
    unfolding snd_eq by (simp_all add: eff)
qed

lemma git_commit_retry_fails:
  assumes dirty: "git_needs_commit self w"
    and gate: "force_commit \<or> \<not> LAZY_COMMITS (settings E)"
    and msg: "get_commit_message E self = Inr m"
    and both: "git_errors (git_repo w self) = True # True # rest'"
  shows "git_commit E a (Some d) force_commit sync skip_push self w =
           (Inl GitCommandError,
            sleep_while_git_locked
              (set_git_repo w self
                 ((private_configure_committer self (git_repo w self))\<lparr>git_errors := rest'\<rparr>)))"
proof -
  let ?w_ok = "set_git_repo w self ((git_repo w self)\<lparr>git_errors := True # rest'\<rparr>)"
  have second: "git_errors (git_repo ?w_ok self) = True # rest'"
    by simp
  show ?thesis
    unfolding git_commit_after_failure [OF dirty gate msg both] private_git_commit_fails [OF msg second]
    by (simp add: configure_committer_errors)
qed

lemma git_commit_skipped:
  "\<not> git_needs_commit self w \<or> (\<not> force_commit \<and> LAZY_COMMITS (settings E)) \<Longrightarrow>
   git_commit E a ts force_commit sync skip_push self w = (Inr (False, self), w)"
  by (auto simp add: git_commit_def)

lemma git_commit_not_false:
  "git_needs_commit self w \<Longrightarrow> force_commit \<or> \<not> LAZY_COMMITS (settings E) \<Longrightarrow>
   (case fst (git_commit E a ts force_commit sync skip_push self w) of
      Inl e \<Rightarrow> True | Inr (ret, self') \<Rightarrow> ret)"
  by (auto simp add: git_commit_def split: prod.splits sum.splits)

lemma git_commit_unformatted:
  assumes dirty: "git_needs_commit self w"
    and gate: "force_commit \<or> \<not> LAZY_COMMITS (settings E)"
    and bad: "get_commit_message E self = Inl e"
  shows "git_commit E a ts force_commit sync skip_push self w =
           (Inl e, set_git_repo w self (private_configure_committer self (git_repo w self)))"
proof -
  from bad get_commit_message_not_git [of E self] have "e \<noteq> GitCommandError"
    by auto
  with dirty gate show ?thesis
    by (simp add: git_commit_def private_git_commit_unformatted [OF bad])
qed

lemma git_commit_no_timestamp:
  assumes dirty: "git_needs_commit self w"
    and gate: "force_commit \<or> \<not> LAZY_COMMITS (settings E)"
    and msg: "get_commit_message E self = Inr m"
  shows "git_commit E a None force_commit sync skip_push self w =
           (Inl AttributeError, set_git_repo w self (private_configure_committer self (git_repo w self)))"
  using dirty gate by (simp add: git_commit_def private_git_commit_no_timestamp [OF msg])

text \<open>What one run of \<open>__git_commit\<close> with a formatted message and a timestamp does.\<close>

lemma private_git_commit_effect:
  assumes msg: "get_commit_message E self = Inr m"
  shows "git_errors (git_repo (snd (private_git_commit E a (Some d) sync self w)) self) =
           tl (git_errors (git_repo w self))" (is ?G)
    and "sleeps (snd (private_git_commit E a (Some d) sync self w)) = sleeps w" (is ?S)
    and "pushes (git_repo (snd (private_git_commit E a (Some d) sync self w)) self) =
           pushes (git_repo w self)" (is ?P)
    and "working_tree (git_repo (snd (private_git_commit E a (Some d) sync self w)) self) =
           working_tree (git_repo w self)" (is ?W)
    and "case private_git_commit E a (Some d) sync self w of
           (Inl e, w') \<Rightarrow>
             (e = GitCommandError \<and> commits (git_repo w' self) = commits (git_repo w self) \<and>
              tree (git_repo w' self) = tree (git_repo w self)) \<or>
             (sync \<and> e = KeyError \<and> get_git_blob_hash E self w' = Inl KeyError \<and>
              commits (git_repo w' self) = commits (git_repo w self) @
                [\<lparr>commit_path = filename self, commit_author = a, commit_date = d, commit_m = m\<rparr>])
         | (Inr self1, w') \<Rightarrow>
             commits (git_repo w' self) = commits (git_repo w self) @
               [\<lparr>commit_path = filename self, commit_author = a, commit_date = d, commit_m = m\<rparr>] \<and>
             (if sync then self1 = self\<lparr>revision := revision self1\<rparr> \<and>
                           Inr (revision self1) = get_git_blob_hash E self1 w'
              else self1 = self)" (is ?R)
proof -
  let ?conf = "private_configure_committer self (git_repo w self)"
  obtain r g where c: "git_commit_command ?conf (filename self) a d m = (r, g)"
    by (cases "git_commit_command ?conf (filename self) a d m")
  have g: "git_errors g = tl (git_errors (git_repo w self))" "pushes g = pushes (git_repo w self)"
    "working_tree g = working_tree (git_repo w self)"
    "(r = Inl GitCommandError \<and> commits g = commits (git_repo w self) \<and> tree g = tree (git_repo w self)) \<or>
     (r = Inr () \<and> commits g = commits (git_repo w self) @
        [\<lparr>commit_path = filename self, commit_author = a, commit_date = d, commit_m = m\<rparr>])"
    using c by (auto simp add: git_commit_command_def Let_def split: if_splits)
  have "?G \<and> ?S \<and> ?P \<and> ?W \<and> ?R"
  proof (cases r)
    case (Inl e)
    with g c msg show ?thesis
      by (simp add: private_git_commit_def)
  next
    case (Inr u)
    show ?thesis
    proof (cases sync)
      case False
      with Inr g c msg show ?thesis
        by (simp add: private_git_commit_def)
    next
      case True
      from store_hash_cases [of E self "set_git_repo w self g"] show ?thesis
      proof
        assume "store_hash E self (set_git_repo w self g) = (Inl KeyError, set_git_repo w self g) \<and>
          get_git_blob_hash E self (set_git_repo w self g) = Inl KeyError"
        with True Inr g c msg show ?thesis
          by (simp add: private_git_commit_def)
      next
        assume "\<exists>h. get_git_blob_hash E self (set_git_repo w self g) = Inr h \<and>
          store_hash E self (set_git_repo w self g) =
            (Inr (self\<lparr>revision := h\<rparr>), save (self\<lparr>revision := h\<rparr>) (set_git_repo w self g))"
        then obtain h where "get_git_blob_hash E self (set_git_repo w self g) = Inr h"
          "store_hash E self (set_git_repo w self g) =
            (Inr (self\<lparr>revision := h\<rparr>), save (self\<lparr>revision := h\<rparr>) (set_git_repo w self g))"
          by blast
        with True Inr g c msg show ?thesis
          by (simp add: private_git_commit_def)
      qed
    qed
  qed
  then show ?G and ?S and ?P and ?W and ?R by simp_all
qed

text \<open>The retry, which runs after the sleep, is the run that a first attempt would have been.\<close>

lemma retry_as_first:
  "private_git_commit E a ts sync self
      (sleep_while_git_locked
         (set_git_repo w self
            ((private_configure_committer self (git_repo w self))\<lparr>git_errors := rest\<rparr>))) =
   (case private_git_commit E a ts sync self
           (set_git_repo w self ((git_repo w self)\<lparr>git_errors := rest\<rparr>)) of
      (r, w') \<Rightarrow> (r, sleep_while_git_locked w'))"
  by (simp only: private_git_commit_sleep configure_committer_errors [symmetric]
        private_git_commit_configured)

lemma git_commit_retry:
  assumes dirty: "git_needs_commit self w"
    and gate: "force_commit \<or> \<not> LAZY_COMMITS (settings E)"
    and msg: "get_commit_message E self = Inr m"
    and first: "git_errors (git_repo w self) = True # rest"
  shows "git_commit E a (Some d) force_commit sync skip_push self w =
     (case private_git_commit E a (Some d) sync self
             (sleep_while_git_locked
                (set_git_repo w self
                   ((private_configure_committer self (git_repo w self))\<lparr>git_errors := rest\<rparr>))) of
        (Inl e, w2) \<Rightarrow> (Inl e, w2)
      | (Inr self1, w2) \<Rightarrow>
          (Inr (True, self1),
           if push_on_commit (project (subproject self)) \<and> \<not> skip_push
           then do_push self1 w2 else w2))"
proof -
  from gate have g: "\<not> (\<not> force_commit \<and> LAZY_COMMITS (settings E))"
    by blast
  show ?thesis
    unfolding git_commit_def
    by (simp add: dirty g private_git_commit_fails [OF msg first])
qed

lemma git_commit_as_if:
  assumes dirty: "git_needs_commit self w"
    and gate: "force_commit \<or> \<not> LAZY_COMMITS (settings E)"
    and msg: "get_commit_message E self = Inr m"
    and first: "git_errors (git_repo w self) = True # rest"
    and second: "fst (private_git_commit E a (Some d) sync self
                   (set_git_repo w self ((git_repo w self)\<lparr>git_errors := rest\<rparr>))) \<noteq> Inl GitCommandError"
  shows "git_commit E a (Some d) force_commit sync skip_push self w =
          (case git_commit E a (Some d) force_commit sync skip_push self
                  (set_git_repo w self ((git_repo w self)\<lparr>git_errors := rest\<rparr>)) of
             (r, w') \<Rightarrow> (r, sleep_while_git_locked w'))"
proof -
  let ?w_ok = "set_git_repo w self ((git_repo w self)\<lparr>git_errors := rest\<rparr>)"
  have dirty_ok: "git_needs_commit self ?w_ok"
    using dirty by (simp add: git_needs_commit_def)
  obtain r w2 where p: "private_git_commit E a (Some d) sync self ?w_ok = (r, w2)"
    by (cases "private_git_commit E a (Some d) sync self ?w_ok")
  with second have r: "r \<noteq> Inl GitCommandError"
    by simp
  show ?thesis
  proof -
    from gate have g: "\<not> (\<not> force_commit \<and> LAZY_COMMITS (settings E))"
      by blast
    show ?thesis
      unfolding git_commit_after_failure [OF dirty gate msg first]
      using r dirty by (cases r) (simp_all add: git_commit_def git_needs_commit_def g p do_push_sleep)
  qed
qed

text \<open>
  C9.  When the commit command of the first \<open>__git_commit\<close> inside \<open>git_commit\<close> fails with
  \<open>GitCommandError\<close>, \<open>git_commit\<close> sleeps once and calls \<open>__git_commit\<close> exactly once more:
  this call is the retry.  If the retry returns, \<open>git_commit\<close> returns true and ends as the
  call would have ended had the first attempt succeeded (but for the sleep), with the one
  commit made.  If the retry raises an exception, be it \<open>GitCommandError\<close> of its command or
  \<open>KeyError\<close> of the blob hash it reads with \<open>sync\<close> after its commit, that exception reaches
  the caller, nothing is pushed and there is no further attempt.  In every case two commands
  have been run and one sleep was taken.
\<close>

theorem git_commit_retries_once:
  assumes dirty: "git_needs_commit self w"
    and gate: "force_commit \<or> \<not> LAZY_COMMITS (settings E)"
    and msg: "get_commit_message E self = Inr m"
    and first: "git_errors (git_repo w self) = True # rest"
  shows
    "private_git_commit E author (Some date) sync self w =
       (Inl GitCommandError,
        set_git_repo w self
          ((private_configure_committer self (git_repo w self))\<lparr>git_errors := rest\<rparr>)) \<and>
     (case private_git_commit E author (Some date) sync self
             (sleep_while_git_locked
                (set_git_repo w self
                   ((private_configure_committer self (git_repo w self))\<lparr>git_errors := rest\<rparr>))) of
        (Inr self1, w2) \<Rightarrow>
          git_commit E author (Some date) force_commit sync skip_push self w =
            (Inr (True, self1),
             if push_on_commit (project (subproject self)) \<and> \<not> skip_push
             then do_push self1 w2 else w2) \<and>
          git_commit E author (Some date) force_commit sync skip_push self w =
            (case git_commit E author (Some date) force_commit sync skip_push self
                    (set_git_repo w self ((git_repo w self)\<lparr>git_errors := rest\<rparr>)) of
               (r, w') \<Rightarrow> (r, sleep_while_git_locked w')) \<and>
          commits (git_repo w2 self) =
            commits (git_repo w self) @
              [\<lparr>commit_path = filename self, commit_author = author, commit_date = date,
                commit_m = m\<rparr>]
      | (Inl e, w2) \<Rightarrow>
          git_commit E author (Some date) force_commit sync skip_push self w = (Inl e, w2) \<and>
          pushes (git_repo w2 self) = pushes (git_repo w self) \<and>
          (e = GitCommandError \<longrightarrow>
             commits (git_repo w2 self) = commits (git_repo w self) \<and>
             tree (git_repo w2 self) = tree (git_repo w self)) \<and>
          (e \<noteq> GitCommandError \<longrightarrow>
             git_commit E author (Some date) force_commit sync skip_push self w =
               (case git_commit E author (Some date) force_commit sync skip_push self
                       (set_git_repo w self ((git_repo w self)\<lparr>git_errors := rest\<rparr>)) of
                  (r, w') \<Rightarrow> (r, sleep_while_git_locked w')))) \<and>
     git_errors (git_repo (snd (git_commit E author (Some date) force_commit sync skip_push self w)) self) =
       tl rest \<and>
     sleeps (snd (git_commit E author (Some date) force_commit sync skip_push self w)) = Suc (sleeps w)"
proof -
  let ?w1 = "set_git_repo w self
      ((private_configure_committer self (git_repo w self))\<lparr>git_errors := rest\<rparr>)"
  let ?w_ok = "set_git_repo w self ((git_repo w self)\<lparr>git_errors := rest\<rparr>)"
  let ?res = "git_commit E author (Some date) force_commit sync skip_push self w"
  obtain r w2 where retry: "private_git_commit E author (Some date) sync self
      (sleep_while_git_locked ?w1) = (r, w2)"
    by (cases "private_git_commit E author (Some date) sync self (sleep_while_git_locked ?w1)")
  note g = git_commit_retry [OF dirty gate msg first, where a = author and d = date and sync = sync
      and skip_push = skip_push, unfolded retry]
  note eff = private_git_commit_effect [OF msg, where a = author and d = date and sync = sync
      and w = "sleep_while_git_locked ?w1", unfolded retry]
  have failed: "private_git_commit E author (Some date) sync self w = (Inl GitCommandError, ?w1)"
    by (rule private_git_commit_fails [OF msg first])
  have a: "git_errors (git_repo w2 self) = tl rest" "sleeps w2 = Suc (sleeps w)"
    "pushes (git_repo w2 self) = pushes (git_repo w self)"
    using eff(1) eff(2) eff(3) by simp_all
  show ?thesis
  proof (cases r)
    case (Inl e)
    from eff(5) Inl have "e = GitCommandError \<longrightarrow>
        commits (git_repo w2 self) = commits (git_repo w self) \<and>
        tree (git_repo w2 self) = tree (git_repo w self)"
      by auto
    moreover have "git_commit E author (Some date) force_commit sync skip_push self w =
        (case git_commit E author (Some date) force_commit sync skip_push self ?w_ok of
           (r, w') \<Rightarrow> (r, sleep_while_git_locked w'))" if "e \<noteq> GitCommandError"
    proof -
      from retry Inl that
      have "fst (private_git_commit E author (Some date) sync self ?w_ok) \<noteq> Inl GitCommandError"
        unfolding retry_as_first by (auto split: prod.splits)
      from git_commit_as_if [OF dirty gate msg first this, where skip_push = skip_push]
      show ?thesis .
    qed
    ultimately show ?thesis
      using failed g a Inl by (simp add: retry)
  next
    case (Inr self1)
    from retry Inr have "fst (private_git_commit E author (Some date) sync self ?w_ok) \<noteq> Inl GitCommandError"
      unfolding retry_as_first by (auto split: prod.splits)
    note as_if = git_commit_as_if [OF dirty gate msg first this, where skip_push = skip_push]
    from eff(5) Inr have c: "commits (git_repo w2 self) =
        commits (git_repo w self) @
          [\<lparr>commit_path = filename self, commit_author = author, commit_date = date, commit_m = m\<rparr>]"
      and s: "self1 = self\<lparr>revision := revision self1\<rparr>"
      by (auto split: if_splits)
    have res: "?res = (Inr (True, self1),
             if push_on_commit (project (subproject self)) \<and> \<not> skip_push
             then do_push self1 w2 else w2)"
      using g Inr by simp
    have p: "git_errors (git_repo (do_push self1 w2) self) = tl rest"
      "sleeps (do_push self1 w2) = Suc (sleeps w)"
      using a by (subst s, simp)+
    have fin: "git_errors (git_repo (snd ?res) self) = tl rest" "sleeps (snd ?res) = Suc (sleeps w)"
      unfolding res using a p by simp_all
    from failed res as_if c fin Inr show ?thesis
      by (simp only: retry sum.case prod.case)
  qed
qed

lemma example_dirty: "git_needs_commit example_translation (failing_world answers)"
  by (simp add: failing_world_def example_repo_def example_translation_def hello_def)

lemma example_answers:
  "git_errors (git_repo (failing_world answers) example_translation) = answers"
  by (simp add: failing_world_def)

lemma example_message:
  "get_commit_message example_env example_translation = Inr ''Translated using Weblate''"
  by (simp add: get_commit_message_def get_fuzzy_percent_def get_translated_percent_def
        example_env_def example_translation_def example_subproject_def example_project_def)

lemma example_no_push: "\<not> push_on_commit (project (subproject example_translation))"
  by (simp add: example_translation_def example_subproject_def example_project_def)

text \<open>
  The Czech file deleted from the working tree, which is a change to commit; after the
  commit the tree has no blob for the file.
\<close>

lemma example_deleted_file:
  "git_needs_commit example_translation
     (set_git_repo example_world example_translation
        (example_repo\<lparr>working_tree := [(''po/de.po'', [hello])], git_errors := answers\<rparr>))"
  "git_errors (git_repo
     (set_git_repo example_world example_translation
        (example_repo\<lparr>working_tree := [(''po/de.po'', [hello])], git_errors := answers\<rparr>))
     example_translation) = answers"
  by (simp_all add: example_repo_def example_translation_def)

theorem git_commit_retries_once_witness:
  "fst (git_commit example_env ''Alice Doe <alice@example.org>'' (Some 7)
        True False False example_translation (failing_world [True, False])) =
     Inr (True, example_translation) \<and>
   commits (git_repo (snd (git_commit example_env ''Alice Doe <alice@example.org>'' (Some 7)
        True False False example_translation (failing_world [True, False]))) example_translation) =
     commits (git_repo (failing_world [True, False]) example_translation) @
       [\<lparr>commit_path = filename example_translation,
         commit_author = ''Alice Doe <alice@example.org>'', commit_date = 7,
         commit_m = ''Translated using Weblate''\<rparr>] \<and>
   sleeps (snd (git_commit example_env ''Alice Doe <alice@example.org>'' (Some 7)
        True False False example_translation (failing_world [True, False]))) =
     Suc (sleeps (failing_world [True, False])) \<and>
   fst (git_commit example_env ''Alice Doe <alice@example.org>'' (Some 7)
        True False False example_translation (failing_world [True, True, False])) =
     Inl GitCommandError \<and>
   git_errors (git_repo (snd (git_commit example_env ''Alice Doe <alice@example.org>'' (Some 7)
        True False False example_translation (failing_world [True, True, False]))) example_translation) =
     tl [True, False] \<and>
   sleeps (snd (git_commit example_env ''Alice Doe <alice@example.org>'' (Some 7)
        True False False example_translation (failing_world [True, True, False]))) =
     Suc (sleeps (failing_world [True, True, False])) \<and>
   fst (git_commit example_env ''Alice Doe <alice@example.org>'' (Some 7)
        True True False example_translation
        (set_git_repo example_world example_translation
           (example_repo\<lparr>working_tree := [(''po/de.po'', [hello])], git_errors := [True, False]\<rparr>))) =
     Inl KeyError"
proof -
  let ?a = "''Alice Doe <alice@example.org>''"
  let ?t = example_translation
  have gate: "True \<or> \<not> LAZY_COMMITS (settings example_env)"
    by simp
  let ?w1 = "\<lambda>answers rest. sleep_while_git_locked (set_git_repo (failing_world answers) ?t
      ((private_configure_committer ?t (git_repo (failing_world answers) ?t))\<lparr>git_errors := rest\<rparr>))"
  have ok: "case git_errors (git_repo (?w1 [True, False] [False]) ?t) of [] \<Rightarrow> True | b # _ \<Rightarrow> \<not> b"
    by simp
  have dirty1: "git_needs_commit ?t (?w1 [True, False] [False])"
    using example_dirty [of "[True, False]"] by (simp add: git_needs_commit_def)
  have retry1: "fst (private_git_commit example_env ?a (Some 7) False ?t (?w1 [True, False] [False])) = Inr ?t"
    unfolding private_git_commit_succeeds [OF example_message ok dirty1] by (simp add: Let_def)
  have bad: "git_errors (git_repo (?w1 [True, True, False] [True, False]) ?t) = True # [False]"
    by simp
  have retry2: "fst (private_git_commit example_env ?a (Some 7) False ?t
      (?w1 [True, True, False] [True, False])) = Inl GitCommandError"
    unfolding private_git_commit_fails [OF example_message bad] by simp
  let ?w = "set_git_repo example_world example_translation
      (example_repo\<lparr>working_tree := [(''po/de.po'', [hello])], git_errors := [True, False]\<rparr>)"
  let ?w3 = "sleep_while_git_locked (set_git_repo ?w ?t
      ((private_configure_committer ?t (git_repo ?w ?t))\<lparr>git_errors := [False]\<rparr>))"
  have ok3: "case git_errors (git_repo ?w3 ?t) of [] \<Rightarrow> True | b # _ \<Rightarrow> \<not> b"
    by simp
  have dirty3: "git_needs_commit ?t ?w3"
    using example_deleted_file(1) [of "[True, False]"] by (simp add: git_needs_commit_def)
  have retry3: "fst (private_git_commit example_env ?a (Some 7) True ?t ?w3) = Inl KeyError"
    unfolding private_git_commit_succeeds [OF example_message ok3 dirty3]
    by (simp add: Let_def store_hash_def get_git_blob_hash_def commit_file_def example_repo_def
          example_translation_def delete_conv')
  note a = git_commit_retries_once [OF example_dirty [of "[True, False]"] gate example_message
      example_answers, where author = ?a and date = 7 and sync = False and skip_push = False]
  note b = git_commit_retries_once [OF example_dirty [of "[True, True, False]"] gate example_message
      example_answers, where author = ?a and date = 7 and sync = False and skip_push = False]
  note c = git_commit_retries_once [OF example_deleted_file(1) [of "[True, False]"] gate
      example_message example_deleted_file(2), where author = ?a and date = 7 and sync = True
      and skip_push = False]
  from a retry1 have "fst (git_commit example_env ?a (Some 7) True False False ?t (failing_world [True, False])) =
        Inr (True, ?t) \<and>
      commits (git_repo (snd (git_commit example_env ?a (Some 7) True False False ?t
        (failing_world [True, False]))) ?t) =
        commits (git_repo (failing_world [True, False]) ?t) @
          [\<lparr>commit_path = filename ?t, commit_author = ?a, commit_date = 7,
            commit_m = ''Translated using Weblate''\<rparr>] \<and>
      sleeps (snd (git_commit example_env ?a (Some 7) True False False ?t (failing_world [True, False]))) =
        Suc (sleeps (failing_world [True, False]))"
    by (auto simp add: example_no_push split: prod.splits sum.splits)
  moreover from b retry2 have "fst (git_commit example_env ?a (Some 7) True False False ?t
        (failing_world [True, True, False])) = Inl GitCommandError \<and>
      git_errors (git_repo (snd (git_commit example_env ?a (Some 7) True False False ?t
        (failing_world [True, True, False]))) ?t) = tl [True, False] \<and>
      sleeps (snd (git_commit example_env ?a (Some 7) True False False ?t
        (failing_world [True, True, False]))) = Suc (sleeps (failing_world [True, True, False]))"
    by (auto split: prod.splits sum.splits)
  moreover from c retry3 have "fst (git_commit example_env ?a (Some 7) True True False ?t ?w) = Inl KeyError"
    by (auto split: prod.splits sum.splits)
  ultimately show ?thesis
    by blast
qed

section \<open>Commit gating\<close>

lemma git_commit_commits:
  assumes dirty: "git_needs_commit self w"
    and gate: "force_commit \<or> \<not> LAZY_COMMITS (settings E)"
    and msg: "get_commit_message E self = Inr m"
    and answers: "take 2 (git_errors (git_repo w self)) \<noteq> [True, True]"
  shows "case git_commit E a (Some d) force_commit sync skip_push self w of
           (Inl e, w') \<Rightarrow> sync \<and> e = KeyError \<and> get_git_blob_hash E self w' = Inl KeyError
         | (Inr (ret, self'), w') \<Rightarrow>
             ret \<and> (if sync then self' = self\<lparr>revision := revision self'\<rparr> \<and>
                                 Inr (revision self') = get_git_blob_hash E self' w'
                      else self' = self)" (is ?R)
    and "commits (git_repo (snd (git_commit E a (Some d) force_commit sync skip_push self w)) self) =
          commits (git_repo w self) @
            [\<lparr>commit_path = filename self, commit_author = a, commit_date = d,
              commit_m = m\<rparr>]" (is ?C)
    and "map_of (tree (git_repo (snd (git_commit E a (Some d) force_commit sync skip_push self w)) self))
             (filename self) =
           map_of (working_tree (git_repo w self)) (filename self)" (is ?T)
proof -
  consider (first) "case git_errors (git_repo w self) of [] \<Rightarrow> True | b # _ \<Rightarrow> \<not> b"
    | (second) rest where "git_errors (git_repo w self) = True # rest"
        "case rest of [] \<Rightarrow> True | b # _ \<Rightarrow> \<not> b"
    using answers
    by (cases "git_errors (git_repo w self)"; cases "tl (git_errors (git_repo w self))")
      (auto simp add: numeral_2_eq_2)
  then have "?R \<and> ?C \<and> ?T"
  proof cases
    case first
    note eff = git_commit_first_attempt_effect [OF dirty gate msg first, where a = a and d = d
        and sync = sync and skip_push = skip_push]
    from eff(1) eff(2) eff(6) show ?thesis by blast
  next
    case second
    note eff = git_commit_retry_succeeds [OF dirty gate msg second, where a = a and d = d
        and sync = sync and skip_push = skip_push]
    from eff(2) eff(3) eff(4) show ?thesis by blast
  qed
  then show ?R and ?C and ?T by simp_all
qed

text \<open>The cases in which \<open>git_commit\<close> attempts the commit and makes none.\<close>

lemma git_commit_nothing_committed:
  assumes dirty: "git_needs_commit self w"
    and gate: "force_commit \<or> \<not> LAZY_COMMITS (settings E)"
  shows "get_commit_message E self = Inl e \<Longrightarrow>
           fst (git_commit E a ts force_commit sync skip_push self w) = Inl e \<and>
           commits (git_repo (snd (git_commit E a ts force_commit sync skip_push self w)) self) =
             commits (git_repo w self) \<and>
           tree (git_repo (snd (git_commit E a ts force_commit sync skip_push self w)) self) =
             tree (git_repo w self)"
    and "get_commit_message E self = Inr m \<Longrightarrow>
           fst (git_commit E a None force_commit sync skip_push self w) = Inl AttributeError \<and>
           commits (git_repo (snd (git_commit E a None force_commit sync skip_push self w)) self) =
             commits (git_repo w self) \<and>
           tree (git_repo (snd (git_commit E a None force_commit sync skip_push self w)) self) =
             tree (git_repo w self)"
    and "get_commit_message E self = Inr m \<Longrightarrow>
         take 2 (git_errors (git_repo w self)) = [True, True] \<Longrightarrow>
           fst (git_commit E a (Some d) force_commit sync skip_push self w) = Inl GitCommandError \<and>
           commits (git_repo (snd (git_commit E a (Some d) force_commit sync skip_push self w)) self) =
             commits (git_repo w self) \<and>
           tree (git_repo (snd (git_commit E a (Some d) force_commit sync skip_push self w)) self) =
             tree (git_repo w self)"
proof -
  show "get_commit_message E self = Inl e \<Longrightarrow>
           fst (git_commit E a ts force_commit sync skip_push self w) = Inl e \<and>
           commits (git_repo (snd (git_commit E a ts force_commit sync skip_push self w)) self) =
             commits (git_repo w self) \<and>
           tree (git_repo (snd (git_commit E a ts force_commit sync skip_push self w)) self) =
             tree (git_repo w self)"
    by (simp add: git_commit_unformatted [OF dirty gate])
  show "get_commit_message E self = Inr m \<Longrightarrow>
           fst (git_commit E a None force_commit sync skip_push self w) = Inl AttributeError \<and>
           commits (git_repo (snd (git_commit E a None force_commit sync skip_push self w)) self) =
             commits (git_repo w self) \<and>
           tree (git_repo (snd (git_commit E a None force_commit sync skip_push self w)) self) =
             tree (git_repo w self)"
    by (simp add: git_commit_no_timestamp [OF dirty gate])
  assume msg: "get_commit_message E self = Inr m"
    and both: "take 2 (git_errors (git_repo w self)) = [True, True]"
  from both obtain rest' where "git_errors (git_repo w self) = True # True # rest'"
    by (cases "git_errors (git_repo w self)"; cases "tl (git_errors (git_repo w self))")
      (auto simp add: numeral_2_eq_2)
  from git_commit_retry_fails [OF dirty gate msg this]
  show "fst (git_commit E a (Some d) force_commit sync skip_push self w) = Inl GitCommandError \<and>
           commits (git_repo (snd (git_commit E a (Some d) force_commit sync skip_push self w)) self) =
             commits (git_repo w self) \<and>
           tree (git_repo (snd (git_commit E a (Some d) force_commit sync skip_push self w)) self) =
             tree (git_repo w self)"
    by simp
qed

lemma store_save_repo [simp]:
  "git_repo (store_save self st w) self =
     (git_repo w self)\<lparr>working_tree := AList.update (filename self) st (working_tree (git_repo w self))\<rparr>"
  by (simp add: store_save_def)

lemma store_saves_repo:
  "commits (git_repo (foldl (\<lambda>w1 st. store_save self st w1) w sts) self) = commits (git_repo w self) \<and>
   tree (git_repo (foldl (\<lambda>w1 st. store_save self st w1) w sts) self) = tree (git_repo w self) \<and>
   git_errors (git_repo (foldl (\<lambda>w1 st. store_save self st w1) w sts) self) = git_errors (git_repo w self) \<and>
   (sts \<noteq> [] \<longrightarrow>
      map_of (working_tree (git_repo (foldl (\<lambda>w1 st. store_save self st w1) w sts) self)) (filename self) =
        Some (last sts))"
proof (induction sts arbitrary: w)
  case Nil
  show ?case by simp
next
  case (Cons st sts)
  from Cons [of "store_save self st w"] show ?case
    by (cases sts) (simp_all add: update_conv')
qed

lemma edit_file_lazy:
  "LAZY_COMMITS (settings E) \<Longrightarrow>
   edit_file E author now sts self w = (Inr (False, self), foldl (\<lambda>w1 st. store_save self st w1) w sts)"
  by (induction sts arbitrary: w) (simp_all add: git_commit_skipped)

text \<open>
  C6 (as amended).  \<open>git_commit\<close> returns false exactly when the file has no uncommitted
  changes, or the commit is not forced and lazy commits are configured; it then changes
  nothing.  In every other case it attempts the commit.  When the commit message cannot be
  formatted, when the timestamp is missing, or when the commit command fails at both
  attempts, the exception reaches the caller and nothing is committed.  Otherwise exactly
  one commit of the file is made, after which the committed file is the file of the working
  tree, and \<open>git_commit\<close> returns true, unless with \<open>sync\<close> the blob hash cannot be read after
  the commit, which raises \<open>KeyError\<close>.  So with lazy commits, repeated edits make no commit,
  and a forced call after them, when its message can be formatted and the command does not
  fail twice, makes one commit that holds the last saved content.
\<close>

theorem git_commit_gating:
  "((case fst (git_commit E author ts force_commit sync skip_push self w) of
       Inl e \<Rightarrow> False | Inr (ret, self') \<Rightarrow> \<not> ret) =
    (\<not> git_needs_commit self w \<or> (\<not> force_commit \<and> LAZY_COMMITS (settings E)))) \<and>
   (\<not> git_needs_commit self w \<or> (\<not> force_commit \<and> LAZY_COMMITS (settings E)) \<longrightarrow>
      git_commit E author ts force_commit sync skip_push self w = (Inr (False, self), w)) \<and>
   (git_needs_commit self w \<and> (force_commit \<or> \<not> LAZY_COMMITS (settings E)) \<longrightarrow>
      (get_commit_message E self = Inl e \<longrightarrow>
         fst (git_commit E author ts force_commit sync skip_push self w) = Inl e \<and>
         commits (git_repo (snd (git_commit E author ts force_commit sync skip_push self w)) self) =
           commits (git_repo w self) \<and>
         tree (git_repo (snd (git_commit E author ts force_commit sync skip_push self w)) self) =
           tree (git_repo w self)) \<and>
      (get_commit_message E self = Inr m \<longrightarrow>
         fst (git_commit E author None force_commit sync skip_push self w) = Inl AttributeError \<and>
         commits (git_repo (snd (git_commit E author None force_commit sync skip_push self w)) self) =
           commits (git_repo w self) \<and>
         tree (git_repo (snd (git_commit E author None force_commit sync skip_push self w)) self) =
           tree (git_repo w self) \<and>
         (take 2 (git_errors (git_repo w self)) = [True, True] \<longrightarrow>
            fst (git_commit E author (Some date) force_commit sync skip_push self w) =
              Inl GitCommandError \<and>
            commits (git_repo (snd (git_commit E author (Some date) force_commit sync skip_push self w)) self) =
              commits (git_repo w self) \<and>
            tree (git_repo (snd (git_commit E author (Some date) force_commit sync skip_push self w)) self) =
              tree (git_repo w self)) \<and>
         (take 2 (git_errors (git_repo w self)) \<noteq> [True, True] \<longrightarrow>
            (case git_commit E author (Some date) force_commit sync skip_push self w of
               (Inl e', w') \<Rightarrow> sync \<and> e' = KeyError \<and> get_git_blob_hash E self w' = Inl KeyError
             | (Inr (ret, self'), w') \<Rightarrow> ret) \<and>
            commits (git_repo (snd (git_commit E author (Some date) force_commit sync skip_push self w)) self) =
              commits (git_repo w self) @
                [\<lparr>commit_path = filename self, commit_author = author, commit_date = date,
                  commit_m = m\<rparr>] \<and>
            map_of (tree (git_repo (snd (git_commit E author (Some date) force_commit sync skip_push self w)) self))
                (filename self) =
              map_of (working_tree (git_repo w self)) (filename self)))) \<and>
   (LAZY_COMMITS (settings E) \<longrightarrow>
      edit_file E author now sts self w =
        (Inr (False, self), foldl (\<lambda>w1 st. store_save self st w1) w sts) \<and>
      commits (git_repo (snd (edit_file E author now sts self w)) self) = commits (git_repo w self) \<and>
      (sts \<noteq> [] \<and> Some (last sts) \<noteq> map_of (tree (git_repo w self)) (filename self) \<and>
       take 2 (git_errors (git_repo w self)) \<noteq> [True, True] \<and>
       get_commit_message E self = Inr m \<longrightarrow>
         commits (git_repo (snd (git_commit E author (Some date) True sync skip_push self
             (snd (edit_file E author now sts self w)))) self) =
           commits (git_repo w self) @
             [\<lparr>commit_path = filename self, commit_author = author, commit_date = date,
               commit_m = m\<rparr>] \<and>
         map_of (tree (git_repo (snd (git_commit E author (Some date) True sync skip_push self
             (snd (edit_file E author now sts self w)))) self)) (filename self) =
           Some (last sts)))"
proof (intro conjI impI)
  show "(case fst (git_commit E author ts force_commit sync skip_push self w) of
       Inl e \<Rightarrow> False | Inr (ret, self') \<Rightarrow> \<not> ret) =
    (\<not> git_needs_commit self w \<or> (\<not> force_commit \<and> LAZY_COMMITS (settings E)))"
    by (auto simp add: git_commit_def split: prod.splits sum.splits)
next
  assume "\<not> git_needs_commit self w \<or> (\<not> force_commit \<and> LAZY_COMMITS (settings E))"
  then show "git_commit E author ts force_commit sync skip_push self w = (Inr (False, self), w)"
    by (rule git_commit_skipped)
next
  assume a: "git_needs_commit self w \<and> (force_commit \<or> \<not> LAZY_COMMITS (settings E))"
  then have dirty: "git_needs_commit self w" and gate: "force_commit \<or> \<not> LAZY_COMMITS (settings E)"
    by simp_all
  note none = git_commit_nothing_committed [OF dirty gate, where a = author and sync = sync
      and skip_push = skip_push]
  {
    assume bad: "get_commit_message E self = Inl e"
    from none(1) [OF bad, of ts]
    show "fst (git_commit E author ts force_commit sync skip_push self w) = Inl e"
      and "commits (git_repo (snd (git_commit E author ts force_commit sync skip_push self w)) self) =
           commits (git_repo w self)"
      and "tree (git_repo (snd (git_commit E author ts force_commit sync skip_push self w)) self) =
           tree (git_repo w self)"
      by simp_all
  }
  assume msg: "get_commit_message E self = Inr m"
  from none(2) [OF msg]
  show "fst (git_commit E author None force_commit sync skip_push self w) = Inl AttributeError"
    and "commits (git_repo (snd (git_commit E author None force_commit sync skip_push self w)) self) =
           commits (git_repo w self)"
    and "tree (git_repo (snd (git_commit E author None force_commit sync skip_push self w)) self) =
           tree (git_repo w self)"
    by simp_all
  {
    assume both: "take 2 (git_errors (git_repo w self)) = [True, True]"
    from none(3) [OF msg both, of date]
    show "fst (git_commit E author (Some date) force_commit sync skip_push self w) = Inl GitCommandError"
      and "commits (git_repo (snd (git_commit E author (Some date) force_commit sync skip_push self w)) self) =
              commits (git_repo w self)"
      and "tree (git_repo (snd (git_commit E author (Some date) force_commit sync skip_push self w)) self) =
              tree (git_repo w self)"
      by simp_all
  }
  assume answers: "take 2 (git_errors (git_repo w self)) \<noteq> [True, True]"
  note eff = git_commit_commits [OF dirty gate msg answers, where a = author and d = date
      and sync = sync and skip_push = skip_push]
  from eff(1) show "case git_commit E author (Some date) force_commit sync skip_push self w of
         (Inl e', w') \<Rightarrow> sync \<and> e' = KeyError \<and> get_git_blob_hash E self w' = Inl KeyError
       | (Inr (ret, self'), w') \<Rightarrow> ret"
    by (auto split: prod.splits sum.splits)
  from eff(2) show "commits (git_repo (snd (git_commit E author (Some date) force_commit sync skip_push self w)) self) =
        commits (git_repo w self) @
          [\<lparr>commit_path = filename self, commit_author = author, commit_date = date,
            commit_m = m\<rparr>]" .
  from eff(3) show "map_of (tree (git_repo (snd (git_commit E author (Some date) force_commit sync skip_push self w)) self))
          (filename self) =
        map_of (working_tree (git_repo w self)) (filename self)" .
next
  assume lazy: "LAZY_COMMITS (settings E)"
  note e = edit_file_lazy [OF lazy, of author now sts self w]
  note s = store_saves_repo [of self w sts]
  show "edit_file E author now sts self w =
        (Inr (False, self), foldl (\<lambda>w1 st. store_save self st w1) w sts)"
    by (rule e)
  show "commits (git_repo (snd (edit_file E author now sts self w)) self) = commits (git_repo w self)"
    unfolding e using s by simp
  assume b: "sts \<noteq> [] \<and> Some (last sts) \<noteq> map_of (tree (git_repo w self)) (filename self) \<and>
       take 2 (git_errors (git_repo w self)) \<noteq> [True, True] \<and>
       get_commit_message E self = Inr m"
  let ?w1 = "foldl (\<lambda>w1 st. store_save self st w1) w sts"
  have dirty: "git_needs_commit self ?w1"
    using b s by (simp add: git_needs_commit_def)
  have answers: "take 2 (git_errors (git_repo ?w1 self)) \<noteq> [True, True]"
    using b s by simp
  have gate: "True \<or> \<not> LAZY_COMMITS (settings E)"
    by simp
  from b have msg: "get_commit_message E self = Inr m"
    by simp
  note eff = git_commit_commits [OF dirty gate msg answers, where a = author and d = date
      and sync = sync and skip_push = skip_push]
  show "commits (git_repo (snd (git_commit E author (Some date) True sync skip_push self
             (snd (edit_file E author now sts self w)))) self) =
           commits (git_repo w self) @
             [\<lparr>commit_path = filename self, commit_author = author, commit_date = date,
               commit_m = m\<rparr>]"
    unfolding e using eff(2) s by simp
  show "map_of (tree (git_repo (snd (git_commit E author (Some date) True sync skip_push self
             (snd (edit_file E author now sts self w)))) self)) (filename self) =
           Some (last sts)"
    unfolding e using eff(3) s b by simp
qed

lemma done_dirty: "git_needs_commit done_translation (failing_world answers)"
  by (simp add: failing_world_def example_repo_def example_translation_def done_translation_def
        set_git_repo_def git_needs_commit_def git_repo_def example_subproject_def hello_def)

lemma done_message: "get_commit_message example_env done_translation = Inl ValueError"
  by (simp add: get_commit_message_def get_fuzzy_percent_def get_translated_percent_def
        example_env_def example_translation_def done_translation_def)

theorem git_commit_gating_witness:
  "git_commit example_env ''Alice Doe <alice@example.org>'' (Some 7) False True False
       example_translation (failing_world []) =
     (Inr (False, example_translation), failing_world []) \<and>
   commits (git_repo (snd (git_commit example_env ''Alice Doe <alice@example.org>'' (Some 7) True True False
       example_translation (failing_world []))) example_translation) =
     commits (git_repo (failing_world []) example_translation) @
       [\<lparr>commit_path = filename example_translation,
         commit_author = ''Alice Doe <alice@example.org>'', commit_date = 7,
         commit_m = ''Translated using Weblate''\<rparr>] \<and>
   fst (git_commit example_env ''Alice Doe <alice@example.org>'' (Some 7) True True False
       done_translation (failing_world [])) = Inl ValueError \<and>
   commits (git_repo (snd (git_commit example_env ''Alice Doe <alice@example.org>'' (Some 7) True True False
       done_translation (failing_world []))) done_translation) =
     commits (git_repo (failing_world []) done_translation) \<and>
   fst (git_commit example_env ''Alice Doe <alice@example.org>'' None True True False
       example_translation (failing_world [])) = Inl AttributeError \<and>
   fst (git_commit example_env ''Alice Doe <alice@example.org>'' (Some 7) True True False
       example_translation (failing_world [True, True])) = Inl GitCommandError \<and>
   commits (git_repo (snd (edit_file example_env ''Alice Doe <alice@example.org>'' 6
       [[hello\<lparr>target := ''Ahoj''\<rparr>], [hello\<lparr>target := ''Nazdar''\<rparr>]]
       example_translation (failing_world []))) example_translation) =
     commits (git_repo (failing_world []) example_translation) \<and>
   map_of (tree (git_repo (snd (git_commit example_env ''Alice Doe <alice@example.org>'' (Some 7) True True False
       example_translation
       (snd (edit_file example_env ''Alice Doe <alice@example.org>'' 6
          [[hello\<lparr>target := ''Ahoj''\<rparr>], [hello\<lparr>target := ''Nazdar''\<rparr>]]
          example_translation (failing_world []))))) example_translation))
       (filename example_translation) =
     Some (last [[hello\<lparr>target := ''Ahoj''\<rparr>], [hello\<lparr>target := ''Nazdar''\<rparr>]])"
proof -
  let ?a = "''Alice Doe <alice@example.org>''"
  let ?sts = "[[hello\<lparr>target := ''Ahoj''\<rparr>], [hello\<lparr>target := ''Nazdar''\<rparr>]]"
  have lazy: "LAZY_COMMITS (settings example_env)"
    by (simp add: example_env_def example_settings_def)
  have skipped: "\<not> git_needs_commit example_translation (failing_world []) \<or>
      (\<not> False \<and> LAZY_COMMITS (settings example_env))"
    using lazy by simp
  have forced: "git_needs_commit example_translation (failing_world answers) \<and>
      (True \<or> \<not> LAZY_COMMITS (settings example_env))" for answers
    by (simp add: example_dirty)
  have forced_done: "git_needs_commit done_translation (failing_world []) \<and>
      (True \<or> \<not> LAZY_COMMITS (settings example_env))"
    by (simp add: done_dirty)
  have once: "take 2 (git_errors (git_repo (failing_world []) example_translation)) \<noteq> [True, True]"
    and twice: "take 2 (git_errors (git_repo (failing_world [True, True]) example_translation)) = [True, True]"
    by (simp_all add: example_answers)
  have edits: "?sts \<noteq> [] \<and>
      Some (last ?sts) \<noteq>
        map_of (tree (git_repo (failing_world []) example_translation)) (filename example_translation) \<and>
      take 2 (git_errors (git_repo (failing_world []) example_translation)) \<noteq> [True, True] \<and>
      get_commit_message example_env example_translation = Inr ''Translated using Weblate''"
    by (simp add: example_answers example_message)
      (simp add: failing_world_def example_repo_def example_translation_def hello_def)
  note t1 = git_commit_gating [where E = example_env and author = ?a and ts = "Some 7"
      and force_commit = False and sync = True and skip_push = False
      and self = example_translation and w = "failing_world []",
      THEN conjunct2, THEN conjunct1, THEN mp, OF skipped]
  note t2 = git_commit_gating [where E = example_env and author = ?a and date = 7
      and force_commit = True and sync = True and skip_push = False
      and self = example_translation and w = "failing_world []"
      and m = "''Translated using Weblate''",
      THEN conjunct2, THEN conjunct2, THEN conjunct1, THEN mp, OF forced,
      THEN conjunct2, THEN mp, OF example_message]
  note t2a = t2 [THEN conjunct1]
  note t2b = t2 [THEN conjunct2, THEN conjunct2, THEN conjunct2, THEN conjunct2, THEN mp, OF once,
      THEN conjunct2, THEN conjunct1]
  note t3 = git_commit_gating [where E = example_env and author = ?a and ts = "Some 7"
      and force_commit = True and sync = True and skip_push = False
      and self = done_translation and w = "failing_world []" and e = ValueError,
      THEN conjunct2, THEN conjunct2, THEN conjunct1, THEN mp, OF forced_done,
      THEN conjunct1, THEN mp, OF done_message]
  note t4 = git_commit_gating [where E = example_env and author = ?a and date = 7
      and force_commit = True and sync = True and skip_push = False
      and self = example_translation and w = "failing_world [True, True]"
      and m = "''Translated using Weblate''",
      THEN conjunct2, THEN conjunct2, THEN conjunct1, THEN mp, OF forced,
      THEN conjunct2, THEN mp, OF example_message,
      THEN conjunct2, THEN conjunct2, THEN conjunct2, THEN conjunct1, THEN mp, OF twice,
      THEN conjunct1]
  note t5 = git_commit_gating [where E = example_env and author = ?a and date = 7 and now = 6
      and sync = True and skip_push = False and sts = ?sts
      and self = example_translation and w = "failing_world []"
      and m = "''Translated using Weblate''",
      THEN conjunct2, THEN conjunct2, THEN conjunct2, THEN mp, OF lazy]
  note t6 = t5 [THEN conjunct2, THEN conjunct2, THEN mp, OF edits]
  from t1 t2a t2b t3 t4 t5 t6 show ?thesis by blast
qed

text \<open>
  The claim as it was stated has true returned after exactly one commit in every case in
  which the commit is attempted.  Here the file has uncommitted changes and the commit is
  forced, the command fails at both attempts, and \<open>git_commit\<close> ends with
  \<open>GitCommandError\<close> and no commit.
\<close>

theorem git_commit_gating_counterexample:
  "git_needs_commit example_translation (failing_world [True, True]) \<and>
   fst (git_commit example_env ''Alice Doe <alice@example.org>'' (Some 7) True False False
          example_translation (failing_world [True, True])) = Inl GitCommandError \<and>
   commits (git_repo (snd (git_commit example_env ''Alice Doe <alice@example.org>'' (Some 7) True False False
          example_translation (failing_world [True, True]))) example_translation) = []"
proof -
  have gate: "True \<or> \<not> LAZY_COMMITS (settings example_env)"
    by simp
  note f = git_commit_retry_fails [OF example_dirty gate example_message example_answers,
      where a = "''Alice Doe <alice@example.org>''" and d = 7 and sync = False and skip_push = False]
  show ?thesis
    unfolding f by (simp add: example_dirty) (simp add: failing_world_def example_repo_def)
qed

section \<open>Pending changes of another author\<close>





section \<open>Cleanup of the records of deleted units\<close>

text \<open>
  What is assumed of \<open>Unit.check\<close>: running the checks of a unit rewrites only the checks
  of the checksum of that unit.
\<close>

lemma recheck_other_tables [simp]:
  "units (foldl (\<lambda>w1 u. w1\<lparr>checks := check E u w1\<rparr>) w us) = units w"
  "translation_objects (foldl (\<lambda>w1 u. w1\<lparr>checks := check E u w1\<rparr>) w us) = translation_objects w"
  "suggestions (foldl (\<lambda>w1 u. w1\<lparr>checks := check E u w1\<rparr>) w us) = suggestions w"
  "comments (foldl (\<lambda>w1 u. w1\<lparr>checks := check E u w1\<rparr>) w us) = comments w"
  "repos (foldl (\<lambda>w1 u. w1\<lparr>checks := check E u w1\<rparr>) w us) = repos w"
  by (induction us arbitrary: w) simp_all

lemma recheck_frame:
  assumes frame: "\<forall>u w0. filter (\<lambda>r. dep_checksum r \<noteq> checksum u) (check E u w0) =
                         filter (\<lambda>r. dep_checksum r \<noteq> checksum u) (checks w0)"
    and us: "\<forall>u \<in> set us. checksum u = c"
  shows "filter (\<lambda>r. dep_checksum r \<noteq> c) (checks (foldl (\<lambda>w1 u. w1\<lparr>checks := check E u w1\<rparr>) w us)) =
         filter (\<lambda>r. dep_checksum r \<noteq> c) (checks w)"
  using us
proof (induction us arbitrary: w)
  case Nil
  show ?case by simp
next
  case (Cons u us)
  from Cons.prems have u: "checksum u = c" by simp
  from Cons.prems have "\<forall>u \<in> set us. checksum u = c" by simp
  from Cons.IH [OF this, of "w\<lparr>checks := check E u w\<rparr>"] frame [rule_format, of u w] u
  show ?case by simp
qed

lemma units_of_language_checksum: "u \<in> set (units_of_language w l p c) \<Longrightarrow> checksum u = c"
  by (simp add: units_of_language_def)

lemma units_of_language_cong:
  "units w' = units w \<Longrightarrow> translation_objects w' = translation_objects w \<Longrightarrow>
   units_of_language w' l p c = units_of_language w l p c"
  by (simp add: units_of_language_def)

lemma units_of_project_cong:
  "units w' = units w \<Longrightarrow> translation_objects w' = translation_objects w \<Longrightarrow>
   units_of_project w' p c = units_of_project w p c"
  by (simp add: units_of_project_def)

lemma units_of_project_empty:
  "units_of_project w p c = [] \<Longrightarrow> units_of_language w l p c = []"
  by (auto simp add: units_of_project_def units_of_language_def filter_empty_conv split: option.splits)

text \<open>One round of the cleanup, table by table.\<close>

lemma cleanup_checksum_units [simp]:
  "units (cleanup_checksum E self w c) = units w"
  "translation_objects (cleanup_checksum E self w c) = translation_objects w"
  "repos (cleanup_checksum E self w c) = repos w"
  by (simp_all add: cleanup_checksum_def Let_def)

lemma cleanup_checksum_suggestions:
  "suggestions (cleanup_checksum E self w c) =
     (if units_of_language w (language self) (project (subproject self)) c = []
      then delete_keyed (project (subproject self)) (Some (language self)) c (suggestions w)
      else suggestions w)"
  by (simp add: cleanup_checksum_def Let_def)

lemma cleanup_checksum_comments:
  "comments (cleanup_checksum E self w c) =
     (if units_of_language w (language self) (project (subproject self)) c = []
      then (if units_of_project w (project (subproject self)) c = []
            then delete_keyed (project (subproject self)) None c
                   (delete_keyed (project (subproject self)) (Some (language self)) c (comments w))
            else delete_keyed (project (subproject self)) (Some (language self)) c (comments w))
      else comments w)"
  by (simp add: cleanup_checksum_def Let_def units_of_project_def)

lemma cleanup_checksum_checks:
  "units_of_language w (language self) (project (subproject self)) c = [] \<Longrightarrow>
   checks (cleanup_checksum E self w c) =
     (if units_of_project w (project (subproject self)) c = []
      then delete_keyed (project (subproject self)) None c
             (delete_keyed (project (subproject self)) (Some (language self)) c (checks w))
      else delete_keyed (project (subproject self)) (Some (language self)) c (checks w))"
  by (simp add: cleanup_checksum_def Let_def units_of_project_def)

lemma cleanup_checksum_checks_other:
  assumes frame: "\<forall>u w0. filter (\<lambda>r. dep_checksum r \<noteq> checksum u) (check E u w0) =
                         filter (\<lambda>r. dep_checksum r \<noteq> checksum u) (checks w0)"
    and other: "c' \<noteq> c"
  shows "filter (\<lambda>r. dep_checksum r = c') (checks (cleanup_checksum E self w c)) =
         filter (\<lambda>r. dep_checksum r = c') (checks w)"
proof (cases "units_of_language w (language self) (project (subproject self)) c = []")
  case True
  with other show ?thesis
    by (auto simp add: cleanup_checksum_checks delete_keyed_def keyed_def intro: filter_cong)
next
  case False
  let ?w1 = "foldl (\<lambda>w1 u. w1\<lparr>checks := check E u w1\<rparr>) w
      (units_of_language w (language self) (project (subproject self)) c)"
  have w1: "cleanup_checksum E self w c = ?w1"
    using False by (simp add: cleanup_checksum_def Let_def)
  have fr: "filter (\<lambda>r. dep_checksum r \<noteq> c) (checks ?w1) = filter (\<lambda>r. dep_checksum r \<noteq> c) (checks w)"
    by (rule recheck_frame [OF frame]) (simp add: units_of_language_checksum)
  have eq: "filter (\<lambda>r. dep_checksum r = c') xs =
      filter (\<lambda>r. dep_checksum r = c') (filter (\<lambda>r. dep_checksum r \<noteq> c) xs)" for xs
    using other by (auto intro: filter_cong)
  have "filter (\<lambda>r. dep_checksum r = c') (checks ?w1) =
      filter (\<lambda>r. dep_checksum r = c') (filter (\<lambda>r. dep_checksum r \<noteq> c) (checks ?w1))"
    by (rule eq)
  also have "\<dots> = filter (\<lambda>r. dep_checksum r = c') (filter (\<lambda>r. dep_checksum r \<noteq> c) (checks w))"
    by (simp only: fr)
  also have "\<dots> = filter (\<lambda>r. dep_checksum r = c') (checks w)"
    by (rule eq [symmetric])
  finally show ?thesis
    unfolding w1 .
qed

lemma filter_keyed_delete_keyed:
  "filter (keyed p l c) (delete_keyed p' l' c' xs) =
     (if p = p' \<and> l = l' \<and> c = c' then [] else filter (keyed p l c) xs)"
  by (auto simp add: delete_keyed_def keyed_def filter_empty_conv intro: filter_cong)

lemma filter_keyed_checksum:
  "filter (keyed p l c) xs = filter (keyed p l c) (filter (\<lambda>r. dep_checksum r = c) xs)"
  by (auto simp add: keyed_def intro: filter_cong)

lemma cleanup_checksum_checks_keyed:
  assumes frame: "\<forall>u w0. filter (\<lambda>r. dep_checksum r \<noteq> checksum u) (check E u w0) =
                         filter (\<lambda>r. dep_checksum r \<noteq> checksum u) (checks w0)"
    and last: "units_of_language w (language self) (project (subproject self)) c = []"
  shows "filter (keyed (project (subproject self)) (Some (language self)) c)
           (checks (cleanup_checksum E self w c0)) =
         (if c0 = c then []
          else filter (keyed (project (subproject self)) (Some (language self)) c) (checks w))"
    and "filter (keyed (project (subproject self)) None c) (checks (cleanup_checksum E self w c0)) =
         (if c0 = c \<and> units_of_project w (project (subproject self)) c = [] then []
          else filter (keyed (project (subproject self)) None c) (checks w))"
proof -
  show "filter (keyed (project (subproject self)) (Some (language self)) c)
           (checks (cleanup_checksum E self w c0)) =
         (if c0 = c then []
          else filter (keyed (project (subproject self)) (Some (language self)) c) (checks w))"
  proof (cases "c0 = c")
    case True
    with last show ?thesis
      by (simp add: cleanup_checksum_checks filter_keyed_delete_keyed)
  next
    case False
    then have "c \<noteq> c0" by simp
    from cleanup_checksum_checks_other [OF frame this, of self w] False show ?thesis
      by (subst filter_keyed_checksum, subst (2) filter_keyed_checksum) simp
  qed
  show "filter (keyed (project (subproject self)) None c) (checks (cleanup_checksum E self w c0)) =
         (if c0 = c \<and> units_of_project w (project (subproject self)) c = [] then []
          else filter (keyed (project (subproject self)) None c) (checks w))"
  proof (cases "c0 = c")
    case True
    with last show ?thesis
      by (simp add: cleanup_checksum_checks filter_keyed_delete_keyed)
  next
    case False
    then have "c \<noteq> c0" by simp
    from cleanup_checksum_checks_other [OF frame this, of self w] False show ?thesis
      by (subst filter_keyed_checksum, subst (2) filter_keyed_checksum) simp
  qed
qed

text \<open>The whole loop over the deleted checksums.\<close>

lemma cleanup_checks_units [simp]:
  "units (cleanup_checks E self cs w) = units w"
  "translation_objects (cleanup_checks E self cs w) = translation_objects w"
  "repos (cleanup_checks E self cs w) = repos w"
  unfolding cleanup_checks_def
  by (induction cs arbitrary: w) simp_all

lemma cleanup_checks_Cons:
  "cleanup_checks E self (c # cs) w = cleanup_checks E self cs (cleanup_checksum E self w c)"
  by (simp add: cleanup_checks_def)

lemma cleanup_checks_suggestions:
  "filter (keyed (project (subproject self)) (Some (language self)) c)
     (suggestions (cleanup_checks E self cs w)) =
   (if c \<in> set cs \<and> units_of_language w (language self) (project (subproject self)) c = [] then []
    else filter (keyed (project (subproject self)) (Some (language self)) c) (suggestions w))"
proof (induction cs arbitrary: w)
  case Nil
  show ?case by (simp add: cleanup_checks_def)
next
  case (Cons c0 cs)
  have u: "units_of_language (cleanup_checksum E self w c0) l p c' = units_of_language w l p c'" for l p c'
    by (rule units_of_language_cong) simp_all
  show ?case
    unfolding cleanup_checks_Cons Cons.IH u
    by (simp add: cleanup_checksum_suggestions filter_keyed_delete_keyed)
qed

lemma cleanup_checks_comments:
  "filter (keyed (project (subproject self)) (Some (language self)) c)
     (comments (cleanup_checks E self cs w)) =
   (if c \<in> set cs \<and> units_of_language w (language self) (project (subproject self)) c = [] then []
    else filter (keyed (project (subproject self)) (Some (language self)) c) (comments w))"
proof (induction cs arbitrary: w)
  case Nil
  show ?case by (simp add: cleanup_checks_def)
next
  case (Cons c0 cs)
  have u: "units_of_language (cleanup_checksum E self w c0) l p c' = units_of_language w l p c'" for l p c'
    by (rule units_of_language_cong) simp_all
  show ?case
    unfolding cleanup_checks_Cons Cons.IH u
    by (simp add: cleanup_checksum_comments filter_keyed_delete_keyed)
qed

lemma cleanup_checks_source_comments:
  "filter (keyed (project (subproject self)) None c) (comments (cleanup_checks E self cs w)) =
   (if c \<in> set cs \<and> units_of_project w (project (subproject self)) c = [] then []
    else filter (keyed (project (subproject self)) None c) (comments w))"
proof (induction cs arbitrary: w)
  case Nil
  show ?case by (simp add: cleanup_checks_def)
next
  case (Cons c0 cs)
  have u: "units_of_project (cleanup_checksum E self w c0) p c' = units_of_project w p c'" for p c'
    by (rule units_of_project_cong) simp_all
  show ?case
    unfolding cleanup_checks_Cons Cons.IH u
    by (simp add: cleanup_checksum_comments filter_keyed_delete_keyed units_of_project_empty)
qed

lemma cleanup_checks_checks:
  assumes frame: "\<forall>u w0. filter (\<lambda>r. dep_checksum r \<noteq> checksum u) (check E u w0) =
                         filter (\<lambda>r. dep_checksum r \<noteq> checksum u) (checks w0)"
  shows "units_of_language w (language self) (project (subproject self)) c = [] \<Longrightarrow>
         filter (keyed (project (subproject self)) (Some (language self)) c)
           (checks (cleanup_checks E self cs w)) =
         (if c \<in> set cs then []
          else filter (keyed (project (subproject self)) (Some (language self)) c) (checks w))"
proof (induction cs arbitrary: w)
  case Nil
  show ?case by (simp add: cleanup_checks_def)
next
  case (Cons c0 cs)
  have "units_of_language (cleanup_checksum E self w c0) (language self) (project (subproject self)) c =
      units_of_language w (language self) (project (subproject self)) c"
    by (rule units_of_language_cong) simp_all
  with Cons.prems have last1: "units_of_language (cleanup_checksum E self w c0) (language self)
      (project (subproject self)) c = []"
    by simp
  show ?case
    unfolding cleanup_checks_Cons Cons.IH [OF last1]
    by (simp add: cleanup_checksum_checks_keyed(1) [OF frame Cons.prems])
qed

lemma cleanup_checks_source_checks:
  assumes frame: "\<forall>u w0. filter (\<lambda>r. dep_checksum r \<noteq> checksum u) (check E u w0) =
                         filter (\<lambda>r. dep_checksum r \<noteq> checksum u) (checks w0)"
  shows "units_of_language w (language self) (project (subproject self)) c = [] \<Longrightarrow>
         filter (keyed (project (subproject self)) None c) (checks (cleanup_checks E self cs w)) =
         (if c \<in> set cs \<and> units_of_project w (project (subproject self)) c = [] then []
          else filter (keyed (project (subproject self)) None c) (checks w))"
proof (induction cs arbitrary: w)
  case Nil
  show ?case by (simp add: cleanup_checks_def)
next
  case (Cons c0 cs)
  have "units_of_language (cleanup_checksum E self w c0) (language self) (project (subproject self)) c =
      units_of_language w (language self) (project (subproject self)) c"
    by (rule units_of_language_cong) simp_all
  with Cons.prems have last1: "units_of_language (cleanup_checksum E self w c0) (language self)
      (project (subproject self)) c = []"
    by simp
  have up: "units_of_project (cleanup_checksum E self w c0) (project (subproject self)) c =
      units_of_project w (project (subproject self)) c"
    by (rule units_of_project_cong) simp_all
  show ?case
    unfolding cleanup_checks_Cons Cons.IH [OF last1] up
    by (auto simp add: cleanup_checksum_checks_keyed(2) [OF frame Cons.prems])
qed


section \<open>The whole synchronisation\<close>

lemma save_tables [simp]:
  "units (save s w) = units w"
  "checks (save s w) = checks w"
  "suggestions (save s w) = suggestions w"
  "comments (save s w) = comments w"
  "changes (save s w) = changes w"
  "repos (save s w) = repos w"
  by (simp_all add: save_def)

lemma update_stats_result:
  assumes "update_stats E self w = (Inr self1, w1)"
  shows "units w1 = units w" "checks w1 = checks w" "suggestions w1 = suggestions w"
    "comments w1 = comments w" "changes w1 = changes w" "repos w1 = repos w"
    "Inr (revision self1) = get_git_blob_hash E self1 w1"
    "subproject self1 = subproject self" "filename self1 = filename self" "pk self1 = pk self"
    "language self1 = language self"
proof -
  let ?s = "self\<lparr>total := int (length (filter (\<lambda>u. unit_translation u = pk self) (units w))),
      fuzzy := int (length (filter unit_fuzzy (filter (\<lambda>u. unit_translation u = pk self) (units w)))),
      translated := int (length (filter unit_translated (filter (\<lambda>u. unit_translation u = pk self) (units w))))\<rparr>"
  from assms have sh: "store_hash E ?s (save ?s w) = (Inr self1, w1)"
    by (simp add: update_stats_def Let_def)
  from store_hash_cases [of E ?s "save ?s w"] sh
  obtain h where h: "get_git_blob_hash E ?s (save ?s w) = Inr h"
    and r: "self1 = ?s\<lparr>revision := h\<rparr>" "w1 = save (?s\<lparr>revision := h\<rparr>) (save ?s w)"
    by auto
  show "units w1 = units w" "checks w1 = checks w" "suggestions w1 = suggestions w"
    "comments w1 = comments w" "changes w1 = changes w" "repos w1 = repos w"
    "subproject self1 = subproject self" "filename self1 = filename self" "pk self1 = pk self"
    "language self1 = language self"
    unfolding r by simp_all
  show "Inr (revision self1) = get_git_blob_hash E self1 w1"
    unfolding r using h by simp
qed

lemma update_from_blob_synced:
  assumes run: "update_from_blob E now force request self w = (Inr self', w')"
    and changed: "get_git_blob_hash E self w \<noteq> Inr (revision self) \<or> force"
    and scan: "scan_units E self w = (Inr (was_new, oldunits), w1)"
    and del: "delete_units self oldunits w1 = (deleted_checksums, w2)"
  shows "units w' = units w2"
    and "checks w' = checks (cleanup_checks E self deleted_checksums w2)"
    and "suggestions w' = suggestions (cleanup_checks E self deleted_checksums w2)"
    and "comments w' = comments (cleanup_checks E self deleted_checksums w2)"
proof -
  from run changed obtain h where h: "get_git_blob_hash E self w = Inr h"
    by (cases "get_git_blob_hash E self w") (simp_all add: update_from_blob_def)
  from changed h have go: "\<not> (revision self = h \<and> \<not> force)"
    by auto
  let ?w3 = "cleanup_checks E self deleted_checksums w2"
  from run h go scan del obtain w4 where st: "update_stats E self ?w3 = (Inr self', w4)"
    and w': "units w' = units w4" "checks w' = checks w4" "suggestions w' = suggestions w4"
      "comments w' = comments w4"
    by (cases "update_stats E self ?w3")
      (auto simp add: update_from_blob_def Let_def split: sum.splits if_splits)
  note r = update_stats_result [OF st]
  show "units w' = units w2"
    and "checks w' = checks ?w3"
    and "suggestions w' = suggestions ?w3"
    and "comments w' = comments ?w3"
    unfolding w' r by simp_all
qed

lemma update_from_blob_revision:
  assumes run: "update_from_blob E now force request self w = (Inr self', w')"
  shows "Inr (revision self') = get_git_blob_hash E self' w'"
proof (cases "get_git_blob_hash E self w")
  case (Inl e)
  with run show ?thesis by (simp add: update_from_blob_def)
next
  case (Inr h)
  show ?thesis
  proof (cases "revision self = h \<and> \<not> force")
    case True
    with run Inr show ?thesis by (simp add: update_from_blob_def)
  next
    case False
    obtain r1 w1 where scan: "scan_units E self w = (r1, w1)"
      by (cases "scan_units E self w")
    from run Inr False scan obtain was_new oldunits where r1: "r1 = Inr (was_new, oldunits)"
      by (cases r1) (auto simp add: update_from_blob_def)
    obtain cs w2 where del: "delete_units self oldunits w1 = (cs, w2)"
      by (cases "delete_units self oldunits w1")
    from run Inr False scan r1 del obtain w4 where st: "update_stats E self (cleanup_checks E self cs w2) = (Inr self', w4)"
      and w': "repos w' = repos w4"
      by (cases "update_stats E self (cleanup_checks E self cs w2)")
        (auto simp add: update_from_blob_def Let_def split: sum.splits if_splits)
    note r = update_stats_result [OF st]
    have "get_git_blob_hash E self' w' = get_git_blob_hash E self' w4"
      by (rule blob_hash_repo) (simp_all add: git_repo_def w')
    with r(7) show ?thesis by simp
  qed
qed

section \<open>The synchronisation on the small installation\<close>

lemmas example_defs = example_world_def example_env_def example_translation_def
  german_translation_def example_repo_def example_subproject_def example_project_def
  example_settings_def hello_def czech_def german_def example_update_from_unit_def
  cleanup_world_def row_def scanned_world_def deleted_world_def synced_translation_def
  synced_world_def

lemma example_scan:
  "scan_units example_env example_translation cleanup_world = (Inr (False, [Suc 0]), scanned_world)"
  by (simp add: scan_units_def get_store_def get_template_store_def has_template_def git_repo_def
        process_unit_def Let_def example_defs)

lemma example_delete:
  "delete_units example_translation [Suc 0] scanned_world = ([''X''], deleted_world)"
  by (simp add: delete_units_def Let_def example_defs)

lemma example_remaining:
  "units_of_language deleted_world (language example_translation)
     (project (subproject example_translation)) ''X'' = []"
  "units_of_project deleted_world (project (subproject example_translation)) ''X'' \<noteq> []"
  by (simp_all add: units_of_language_def units_of_project_def example_defs)

lemma example_cleanup:
  "cleanup_checks example_env example_translation [''X''] deleted_world =
     deleted_world\<lparr>checks := [row None ''optional plural''],
                    suggestions := [row (Some german) ''Hallo''],
                    comments := [row None ''a greeting'']\<rparr>"
  by (simp add: cleanup_checks_def cleanup_checksum_def units_of_language_def units_of_project_def
        delete_keyed_def keyed_def Let_def example_defs)

lemma example_changed:
  "get_git_blob_hash example_env example_translation cleanup_world \<noteq>
     Inr (revision example_translation) \<or> False"
  by (simp add: get_git_blob_hash_def has_template_def git_repo_def Let_def example_defs)

lemma example_stats:
  "update_stats example_env example_translation
     (deleted_world\<lparr>checks := [row None ''optional plural''],
                    suggestions := [row (Some german) ''Hallo''],
                    comments := [row None ''a greeting'']\<rparr>) =
   (Inr synced_translation,
    deleted_world\<lparr>translation_objects := [synced_translation, german_translation],
                   checks := [row None ''optional plural''],
                   suggestions := [row (Some german) ''Hallo''],
                   comments := [row None ''a greeting'']\<rparr>)"
  by (simp add: update_stats_def store_hash_def get_git_blob_hash_def has_template_def git_repo_def
        save_def Let_def example_defs)

lemma example_run:
  "update_from_blob example_env 9 False None example_translation cleanup_world =
     (Inr synced_translation, synced_world)"
proof -
  have h: "get_git_blob_hash example_env example_translation cleanup_world = Inr ''hello=;''"
    by (simp add: get_git_blob_hash_def has_template_def git_repo_def Let_def example_defs)
  have r: "revision example_translation \<noteq> ''hello=;''"
    by (simp add: example_translation_def)
  have fin: "pk synced_translation = Suc 0" "changes deleted_world = changes cleanup_world"
    by (simp_all add: synced_translation_def example_translation_def deleted_world_def)
  show ?thesis
    by (simp add: update_from_blob_def h r example_scan example_delete example_cleanup
          example_stats fin synced_world_def)
qed

lemma example_frame:
  "\<forall>u w0. filter (\<lambda>r. dep_checksum r \<noteq> checksum u) (check example_env u w0) =
          filter (\<lambda>r. dep_checksum r \<noteq> checksum u) (checks w0)"
  by (auto simp add: example_env_def intro: filter_cong)

section \<open>Idempotence and cleanup of the synchronisation\<close>

text \<open>
  C4.  After \<open>update_from_blob\<close> has run and stored the revision, a call that is not forced
  and finds the same blob hash returns at once: the instance and the whole database (units,
  dependent records, statistics, changes, repository) are as they were.
\<close>

theorem update_from_blob_idempotent:
  assumes run: "update_from_blob E now force request self w = (Inr self', w')"
    and same: "get_git_blob_hash E self' w'' = get_git_blob_hash E self' w'"
  shows "update_from_blob E now' False request' self' w'' = (Inr self', w'')"
proof -
  from update_from_blob_revision [OF run] same
  have "get_git_blob_hash E self' w'' = Inr (revision self')"
    by simp
  then show ?thesis
    by (simp add: update_from_blob_def)
qed

theorem update_from_blob_idempotent_witness:
  "update_from_blob example_env 10 False (Some alice) synced_translation
       synced_world =
     (Inr synced_translation, synced_world)"
  by (rule update_from_blob_idempotent [OF example_run refl])




text \<open>
  C3.  When a unit with checksum \<open>c\<close> that \<open>update_from_blob\<close> deleted was the last unit of
  its language in the project with that checksum, no check, suggestion or comment of the
  project for \<open>c\<close> and that language is left afterwards; and if a unit of another language
  in the project still has the checksum, the source comments and source checks for \<open>c\<close>
  are all still there.
\<close>

theorem last_unit_cleanup:
  assumes run: "update_from_blob E now force request self w = (Inr self', w')"
    and changed: "get_git_blob_hash E self w \<noteq> Inr (revision self) \<or> force"
    and scan: "scan_units E self w = (Inr (was_new, oldunits), w1)"
    and del: "delete_units self oldunits w1 = (deleted_checksums, w2)"
    and c: "c \<in> set deleted_checksums"
    and last: "units_of_language w2 (language self) (project (subproject self)) c = []"
    and frame: "\<forall>u w0. filter (\<lambda>r. dep_checksum r \<noteq> checksum u) (check E u w0) =
                         filter (\<lambda>r. dep_checksum r \<noteq> checksum u) (checks w0)"
  shows
    "filter (keyed (project (subproject self)) (Some (language self)) c) (checks w') = [] \<and>
     filter (keyed (project (subproject self)) (Some (language self)) c) (suggestions w') = [] \<and>
     filter (keyed (project (subproject self)) (Some (language self)) c) (comments w') = [] \<and>
     (units_of_project w2 (project (subproject self)) c \<noteq> [] \<longrightarrow>
        filter (keyed (project (subproject self)) None c) (comments w') =
          filter (keyed (project (subproject self)) None c) (comments w2) \<and>
        filter (keyed (project (subproject self)) None c) (checks w') =
          filter (keyed (project (subproject self)) None c) (checks w2))"
  using c last
  unfolding update_from_blob_synced [OF run changed scan del]
  by (simp add: cleanup_checks_suggestions cleanup_checks_comments cleanup_checks_source_comments
        cleanup_checks_checks [OF frame] cleanup_checks_source_checks [OF frame])

theorem last_unit_cleanup_witness:
  "filter (keyed (project (subproject example_translation)) (Some (language example_translation)) ''X'')
     (checks synced_world) = [] \<and>
   filter (keyed (project (subproject example_translation)) None ''X'')
     (checks synced_world) =
     filter (keyed (project (subproject example_translation)) None ''X'') (checks deleted_world)"
  using last_unit_cleanup [OF example_run example_changed example_scan example_delete _
      example_remaining(1) example_frame] example_remaining(2)
  by simp

section \<open>Merging a store\<close>




















section \<open>A merge on the small installation\<close>





section \<open>The dispatch of an upload\<close>

lemma merge_translations_each:
  "merge_translations E now author st overwrite merge_header add_fuzzy ts ret w =
     (case merge_store_each E now author st overwrite merge_header add_fuzzy ts w of
        (Inl e, w1) \<Rightarrow> (Inl e, w1)
      | (Inr rs, w1) \<Rightarrow> (Inr (ret \<or> True \<in> set rs), w1))"
  by (induction ts arbitrary: ret w) (auto split: prod.splits sum.splits)

lemma merge_translations_each_False:
  "merge_translations E now author st overwrite merge_header add_fuzzy ts False w =
     (case merge_store_each E now author st overwrite merge_header add_fuzzy ts w of
        (Inl e, w1) \<Rightarrow> (Inl e, w1)
      | (Inr rs, w1) \<Rightarrow> (Inr (True \<in> set rs), w1))"
  by (simp add: merge_translations_each split: prod.splits sum.splits)

lemma merge_store_each_length:
  "merge_store_each E now author st overwrite merge_header add_fuzzy ts w = (Inr rs, w1) \<Longrightarrow>
   length rs = length ts"
  by (induction ts arbitrary: rs w) (auto split: prod.splits sum.splits)

lemma upload_translations_candidates:
  "upload_translations self w = filter (candidate_sibling self) (translation_objects w)"
  by (auto simp add: upload_translations_def candidate_sibling_def intro: filter_cong)

text \<open>
  C5.  \<open>merge_upload\<close> has exactly two branches.  For the empty mode and the mode
  \<open>fuzzy\<close> it runs \<open>merge_store\<close> on every candidate sibling (same language, same project,
  the translation itself or a subproject that allows propagation), with \<open>add_fuzzy\<close>
  exactly for the mode \<open>fuzzy\<close>, and returns the disjunction of the results; for any other
  mode it runs \<open>merge_suggestions\<close> on the translation itself and returns its result.
\<close>

theorem merge_upload_dispatch:
  assumes parsed: "(case ttkit E fileobj None of
                      None \<Rightarrow> ttkit E fileobj (Some (file_format (subproject self)))
                    | Some st \<Rightarrow> Some st) = Some st"
  shows
    "merge_upload E now request_user fileobj overwrite author merge_header method self w =
       mergeUpload_spec E now request_user st overwrite
         (case author of None \<Rightarrow> get_author_name request_user True | Some a \<Rightarrow> a)
         merge_header method self w \<and>
     (t \<in> set (upload_translations self w)) =
       (t \<in> set (translation_objects w) \<and> language t = language self \<and>
        project (subproject t) = project (subproject self) \<and>
        (pk t = pk self \<or> allow_translation_propagation (subproject t))) \<and>
     (method = [] \<or> method = ''fuzzy'' \<longrightarrow>
        (case merge_upload E now request_user fileobj overwrite author merge_header method self w of
           (Inl e, w1) \<Rightarrow>
             fst (merge_store_each E now
                    (case author of None \<Rightarrow> get_author_name request_user True | Some a \<Rightarrow> a)
                    st overwrite merge_header (method = ''fuzzy'')
                    (upload_translations self w) w) = Inl e
         | (Inr ret, w1) \<Rightarrow>
             (\<exists>rs. merge_store_each E now
                      (case author of None \<Rightarrow> get_author_name request_user True | Some a \<Rightarrow> a)
                      st overwrite merge_header (method = ''fuzzy'')
                      (upload_translations self w) w = (Inr rs, w1) \<and>
                    length rs = length (upload_translations self w) \<and>
                    ret = (True \<in> set rs)))) \<and>
     (method \<noteq> [] \<and> method \<noteq> ''fuzzy'' \<longrightarrow>
        merge_upload E now request_user fileobj overwrite author merge_header method self w =
          (case merge_suggestions E request_user st self w of (ret, w1) \<Rightarrow> (Inr ret, w1)))"
proof (intro conjI impI)
  show "merge_upload E now request_user fileobj overwrite author merge_header method self w =
       mergeUpload_spec E now request_user st overwrite
         (case author of None \<Rightarrow> get_author_name request_user True | Some a \<Rightarrow> a)
         merge_header method self w"
    using parsed
    by (simp add: merge_upload_def mergeUpload_spec_def merge_translations_each_False
          upload_translations_candidates Let_def)
next
  show "(t \<in> set (upload_translations self w)) =
       (t \<in> set (translation_objects w) \<and> language t = language self \<and>
        project (subproject t) = project (subproject self) \<and>
        (pk t = pk self \<or> allow_translation_propagation (subproject t)))"
    by (auto simp add: upload_translations_def)
next
  assume "method = [] \<or> method = ''fuzzy''"
  with parsed show "case merge_upload E now request_user fileobj overwrite author merge_header method self w of
           (Inl e, w1) \<Rightarrow>
             fst (merge_store_each E now
                    (case author of None \<Rightarrow> get_author_name request_user True | Some a \<Rightarrow> a)
                    st overwrite merge_header (method = ''fuzzy'')
                    (upload_translations self w) w) = Inl e
         | (Inr ret, w1) \<Rightarrow>
             (\<exists>rs. merge_store_each E now
                      (case author of None \<Rightarrow> get_author_name request_user True | Some a \<Rightarrow> a)
                      st overwrite merge_header (method = ''fuzzy'')
                      (upload_translations self w) w = (Inr rs, w1) \<and>
                    length rs = length (upload_translations self w) \<and>
                    ret = (True \<in> set rs))"
    by (auto simp add: merge_upload_def merge_translations_each_False Let_def
          split: prod.splits sum.splits dest: merge_store_each_length)
next
  assume "method \<noteq> [] \<and> method \<noteq> ''fuzzy''"
  with parsed show "merge_upload E now request_user fileobj overwrite author merge_header method self w =
          (case merge_suggestions E request_user st self w of (ret, w1) \<Rightarrow> (Inr ret, w1))"
    by (simp add: merge_upload_def Let_def)
qed

theorem merge_upload_dispatch_witness:
  "merge_upload example_env 9 alice ''Nazdar'' False None True [] example_translation example_world =
     mergeUpload_spec example_env 9 alice [hello\<lparr>target := ''Nazdar''\<rparr>] False
       (case None of None \<Rightarrow> get_author_name alice True | Some a \<Rightarrow> a)
       True [] example_translation example_world \<and>
   merge_upload example_env 9 alice ''Nazdar'' False None True ''suggest'' example_translation example_world =
     (case merge_suggestions example_env alice [hello\<lparr>target := ''Nazdar''\<rparr>] example_translation
             example_world of
        (ret, w1) \<Rightarrow> (Inr ret, w1))"
proof -
  have parsed: "(case ttkit example_env ''Nazdar'' None of
        None \<Rightarrow> ttkit example_env ''Nazdar'' (Some (file_format (subproject example_translation)))
      | Some st \<Rightarrow> Some st) = Some [hello\<lparr>target := ''Nazdar''\<rparr>]"
    by (simp add: example_env_def)
  have other: "''suggest'' \<noteq> [] \<and> ''suggest'' \<noteq> ''fuzzy''"
    by simp
  note t1 = merge_upload_dispatch [OF parsed, THEN conjunct1]
  note t2 = merge_upload_dispatch [OF parsed, THEN conjunct2, THEN conjunct2, THEN conjunct2,
      THEN mp, OF other]
  show ?thesis
    by (rule conjI) (rule t1, rule t2)
qed

end
